theory Spec2Isabelle
  imports Main "HOL-Library.Sublist"
begin

section \<open>Strings and numbers as the scripts use them\<close>

text \<open>
  A script string is a \<^typ>\<open>string\<close>; each character stands for one code unit below 256.
  \<open>String(n)\<close> and a number inside a template literal print a natural number in
  decimal.
\<close>

definition digit_char :: "nat \<Rightarrow> char" where
  "digit_char d = ''0123456789'' ! d"

fun string_of_nat :: "nat \<Rightarrow> string" where
  "string_of_nat n =
     (if n < 10 then [digit_char n] else string_of_nat (n div 10) @ [digit_char (n mod 10)])"

declare string_of_nat.simps [simp del]

text \<open>White space as \<open>String.prototype.trim\<close> and the regular expression class \<open>\s\<close>
  see it, among the code units below 256: TAB, LF, VT, FF, CR, SPACE and NBSP.\<close>

definition is_space :: "char \<Rightarrow> bool" where
  "is_space c = ((of_char c :: nat) \<in> {9, 10, 11, 12, 13, 32, 160})"

definition trim :: "string \<Rightarrow> string" where
  "trim s = rev (dropWhile is_space (rev (dropWhile is_space s)))"

text \<open>\<open>toLowerCase\<close> on the code units below 256: the letters A to Z and the
  accented capitals of Latin-1.\<close>

definition to_lower :: "char \<Rightarrow> char" where
  "to_lower c =
     (let n = (of_char c :: nat)
      in if (65 \<le> n \<and> n \<le> 90) \<or> (192 \<le> n \<and> n \<le> 222 \<and> n \<noteq> 215)
         then char_of (n + 32) else c)"

definition toLowerCase :: "string \<Rightarrow> string" where
  "toLowerCase s = map to_lower s"

text \<open>\<open>Array.prototype.join\<close>.\<close>

fun join :: "string \<Rightarrow> string list \<Rightarrow> string" where
  "join sep [] = []"
| "join sep [x] = x"
| "join sep (x # y # ys) = x @ sep @ join sep (y # ys)"

text \<open>\<open>split(/\s+/)\<close>: the pieces between the maximal runs of white space; the flag
  says that the previous character was white space.\<close>

fun split_from :: "bool \<Rightarrow> string \<Rightarrow> string \<Rightarrow> string list" where
  "split_from in_ws cur [] = [cur]"
| "split_from in_ws cur (c # cs) =
     (if is_space c
      then (if in_ws then split_from True cur cs else cur # split_from True [] cs)
      else split_from False (cur @ [c]) cs)"

definition split_ws :: "string \<Rightarrow> string list" where
  "split_ws s = split_from False [] s"

text \<open>\<open>x || undefined\<close> on a string: the empty string is falsy.\<close>

definition or_undefined :: "string \<Rightarrow> string option" where
  "or_undefined s = (if s = [] then None else Some s)"

section \<open>The live page\<close>

text \<open>
  The content script reads and changes the page only through the DOM. An element is the
  record of what the script reads from it; \<open>node\<close> is its identity. The selector engine
  of the browser is a field of the page: \<open>querySelectorAll p s\<close> is the list of matches in
  document order, or the rendering of the exception it throws on a selector it cannot
  parse.
\<close>

datatype iface = NonHTML | HTMLInput | HTMLTextArea | HTMLButton | HTMLSelect | HTMLOther

record element =
  node :: nat
  iface :: iface
  tagName :: string
  elemId :: string
  className :: "string option"
  nameAttr :: "string option"
  placeholderAttr :: "string option"
  textContent :: "string option"
  parentChildren :: "(nat \<times> string) list option"
  display :: string
  visibility :: string
  opacity :: string
  inputType :: string
  nameProp :: string
  placeholderProp :: string
  valueProp :: string
  checkedProp :: bool
  disabledProp :: bool

record page =
  href :: string
  title :: string
  querySelectorAll :: "string \<Rightarrow> string + element list"

text \<open>\<open>document.querySelector\<close>: the first match, \<open>null\<close> when there is none.\<close>

definition querySelector :: "page \<Rightarrow> string \<Rightarrow> string + element option" where
  "querySelector p s =
     (case querySelectorAll p s of
        Inl err \<Rightarrow> Inl err
      | Inr [] \<Rightarrow> Inr None
      | Inr (e # _) \<Rightarrow> Inr (Some e))"

text \<open>
  What the page does when the script acts on it is the browser's and the page's own
  business: running a click, storing a value, dispatching an event and letting time pass
  each give the next page, or throw.
\<close>

datatype outcome = Done page | Threw string page

record browser =
  click :: "page \<Rightarrow> element \<Rightarrow> outcome"
  setValue :: "page \<Rightarrow> element \<Rightarrow> string \<Rightarrow> outcome"
  dispatchEvent :: "page \<Rightarrow> element \<Rightarrow> string \<Rightarrow> outcome"
  elapse :: "page \<Rightarrow> nat \<Rightarrow> page"

section \<open>Actions and their results (types.ts)\<close>

text \<open>
  \<open>ActionType\<close> is declared as one of three literals, but an action is decoded from the
  model's reply and \<open>executeAction\<close> has a branch for any other type, so the type is a
  string here.
\<close>

record action =
  atype :: string
  selector :: string
  avalue :: "string option"
  description :: "string option"

record action_result =
  success :: bool
  action :: action
  error :: "string option"

definition succeeded :: "action \<Rightarrow> action_result" where
  "succeeded a = \<lparr>success = True, action = a, error = None\<rparr>"

definition failed :: "action \<Rightarrow> string \<Rightarrow> action_result" where
  "failed a msg = \<lparr>success = False, action = a, error = Some msg\<rparr>"

section \<open>The action executor (content script)\<close>

text \<open>\<open>fill\<close> on an input or a text area: store the value, then the two events. An
  exception at any step ends the action with that exception.\<close>

definition fill_element :: "browser \<Rightarrow> page \<Rightarrow> element \<Rightarrow> string \<Rightarrow> outcome" where
  "fill_element br p el v =
     (case setValue br p el v of
        Threw m p1 \<Rightarrow> Threw m p1
      | Done p1 \<Rightarrow>
          (case dispatchEvent br p1 el ''input'' of
             Threw m p2 \<Rightarrow> Threw m p2
           | Done p2 \<Rightarrow> dispatchEvent br p2 el ''change''))"

definition finish :: "action \<Rightarrow> outcome \<Rightarrow> action_result \<times> page" where
  "finish a out =
     (case out of Done p' \<Rightarrow> (succeeded a, p') | Threw m p' \<Rightarrow> (failed a m, p'))"

definition executeAction :: "browser \<Rightarrow> page \<Rightarrow> action \<Rightarrow> action_result \<times> page" where
  "executeAction br p a =
     (if atype a = ''wait'' then (succeeded a, elapse br p 1000)
      else
        (case querySelector p (selector a) of
           Inl err \<Rightarrow> (failed a err, p)
         | Inr None \<Rightarrow> (failed a (''Element not found: '' @ selector a), p)
         | Inr (Some el) \<Rightarrow>
             if iface el = NonHTML
             then (failed a (''Element is not an HTMLElement: '' @ selector a), p)
             else if atype a = ''click'' then finish a (click br p el)
             else if atype a = ''fill'' then
               (if iface el = HTMLInput \<or> iface el = HTMLTextArea
                then finish a (fill_element br p el (case avalue a of None \<Rightarrow> [] | Some v \<Rightarrow> v))
                else (failed a (''Element is not an input or textarea: '' @ selector a), p))
             else (failed a (''Unknown action type: '' @ atype a), p)))"

text \<open>The loop of \<open>executeActions\<close>: one result per action tried, in order; a failure
  ends the loop; after a success the page is left alone for 500 ms.\<close>

fun executeActions :: "browser \<Rightarrow> page \<Rightarrow> action list \<Rightarrow> action_result list \<times> page" where
  "executeActions br p [] = ([], p)"
| "executeActions br p (a # as) =
     (case executeAction br p a of
        (r, p1) \<Rightarrow>
          if \<not> success r then ([r], p1)
          else (case executeActions br (elapse br p1 500) as of
                  (rs, p2) \<Rightarrow> (r # rs, p2)))"

section \<open>The selector synthesizer and the page observer (content script)\<close>

record dom_element =
  el_selector :: string
  el_tag :: string
  el_type :: "string option"
  el_id :: "string option"
  el_className :: "string option"
  el_text :: "string option"
  el_placeholder :: "string option"
  el_name :: "string option"
  el_value :: "string option"
  el_checked :: "bool option"
  el_disabled :: "bool option"

record page_context =
  pc_url :: string
  pc_title :: string
  pc_elements :: "dom_element list"
  pc_screenshot :: "string option"

text \<open>\<open>siblings.indexOf(element)\<close>: the position of the element among the children of
  its parent that have its tag name, or -1.\<close>

fun indexOf :: "nat \<Rightarrow> nat list \<Rightarrow> int" where
  "indexOf x [] = -1"
| "indexOf x (y # ys) =
     (if x = y then 0 else (let i = indexOf x ys in if i < 0 then -1 else i + 1))"

definition by_position :: "element \<Rightarrow> string" where
  "by_position el =
     (let tag = toLowerCase (tagName el);
          siblings = filter (\<lambda>(n, t). t = tagName el)
                       (case parentChildren el of None \<Rightarrow> [] | Some cs \<Rightarrow> cs);
          index = indexOf (node el) (map fst siblings)
      in tag @ '':nth-of-type('' @ string_of_nat (nat (index + 1)) @ '')'')"

definition by_placeholder :: "page \<Rightarrow> element \<Rightarrow> string + string" where
  \<open>by_placeholder p el =
     (case placeholderAttr el of
        None \<Rightarrow> Inr (by_position el)
      | Some ph \<Rightarrow>
          if ph = [] then Inr (by_position el)
          else
            (let sel = toLowerCase (tagName el) @ ''[placeholder="'' @ ph @ ''"]''
             in case querySelectorAll p sel of
                  Inl err \<Rightarrow> Inl err
                | Inr found \<Rightarrow> if length found = 1 then Inr sel else Inr (by_position el)))\<close>

definition by_class :: "page \<Rightarrow> element \<Rightarrow> string + string" where
  "by_class p el =
     (case className el of
        None \<Rightarrow> by_placeholder p el
      | Some cn \<Rightarrow>
          if cn = [] then by_placeholder p el
          else
            (let classes = filter (\<lambda>c. c \<noteq> []) (split_ws (trim cn))
             in if length classes > 0
                then
                  (let sel = toLowerCase (tagName el) @ ''.'' @ join ''.'' classes
                   in case querySelectorAll p sel of
                        Inl err \<Rightarrow> Inl err
                      | Inr found \<Rightarrow> if length found = 1 then Inr sel else by_placeholder p el)
                else by_placeholder p el))"

text \<open>\<open>getSelector\<close>: the first rule that applies; \<open>Inl\<close> is the exception of a
  uniqueness probe the selector engine refuses.\<close>

definition getSelector :: "page \<Rightarrow> element \<Rightarrow> string + string" where
  \<open>getSelector p el =
     (if elemId el \<noteq> [] then Inr (''#'' @ elemId el)
      else
        (case nameAttr el of
           None \<Rightarrow> by_class p el
         | Some n \<Rightarrow> if n \<noteq> [] then Inr (''[name="'' @ n @ ''"]'') else by_class p el))\<close>

definition interactiveSelectors :: "string list" where
  \<open>interactiveSelectors =
     [''input:not([type="hidden"])'', ''textarea'', ''button'', ''select'', ''a[href]'',
      ''[role="button"]'', ''[onclick]'', ''[contenteditable="true"]'']\<close>

definition invisible :: "element \<Rightarrow> bool" where
  "invisible el = (display el = ''none'' \<or> visibility el = ''hidden'' \<or> opacity el = ''0'')"

text \<open>The elements the scan of \<open>extractPageContext\<close> does not skip.\<close>

definition retained :: "element \<Rightarrow> bool" where
  "retained el = (iface el \<noteq> NonHTML \<and> \<not> invisible el)"

definition describe :: "element \<Rightarrow> string \<Rightarrow> dom_element" where
  "describe el sel =
     (let d = \<lparr>el_selector = sel,
                el_tag = toLowerCase (tagName el),
                el_type = None,
                el_id = or_undefined (elemId el),
                el_className = (case className el of None \<Rightarrow> None | Some c \<Rightarrow> or_undefined c),
                el_text = (case textContent el of None \<Rightarrow> None
                           | Some t \<Rightarrow> or_undefined (take 100 (trim t))),
                el_placeholder = None, el_name = None, el_value = None,
                el_checked = None, el_disabled = None\<rparr>
      in if iface el = HTMLInput then
           d\<lparr>el_type := Some (inputType el),
             el_name := or_undefined (nameProp el),
             el_placeholder := or_undefined (placeholderProp el),
             el_value := or_undefined (valueProp el),
             el_checked := Some (checkedProp el),
             el_disabled := Some (disabledProp el)\<rparr>
         else if iface el = HTMLTextArea then
           d\<lparr>el_name := or_undefined (nameProp el),
             el_placeholder := or_undefined (placeholderProp el),
             el_value := or_undefined (valueProp el),
             el_disabled := Some (disabledProp el)\<rparr>
         else if iface el = HTMLButton \<or> iface el = HTMLSelect then
           d\<lparr>el_name := or_undefined (nameProp el),
             el_disabled := Some (disabledProp el)\<rparr>
         else d)"

text \<open>The \<open>forEach\<close> over the elements found: an element that is no \<open>HTMLElement\<close>
  or is invisible is skipped, the others are described in order; the first exception of
  \<open>getSelector\<close> ends the scan.\<close>

fun scan :: "page \<Rightarrow> element list \<Rightarrow> string + dom_element list" where
  "scan p [] = Inr []"
| "scan p (el # els) =
     (if iface el = NonHTML then scan p els
      else if invisible el then scan p els
      else
        (case getSelector p el of
           Inl err \<Rightarrow> Inl err
         | Inr sel \<Rightarrow>
             (case scan p els of
                Inl err \<Rightarrow> Inl err
              | Inr ds \<Rightarrow> Inr (describe el sel # ds))))"

definition extractPageContext :: "page \<Rightarrow> string + page_context" where
  "extractPageContext p =
     (case querySelectorAll p (join '','' interactiveSelectors) of
        Inl err \<Rightarrow> Inl err
      | Inr foundElements \<Rightarrow>
          (case scan p foundElements of
             Inl err \<Rightarrow> Inl err
           | Inr elements \<Rightarrow>
               Inr \<lparr>pc_url = href p, pc_title = title p,
                    pc_elements = take 100 elements, pc_screenshot = None\<rparr>))"

section \<open>The request text of the two AI clients (ai-client.ts)\<close>

text \<open>\<open>cond && text\<close> followed by \<open>filter(Boolean)\<close>: a part is kept when its
  condition is truthy. An absent field and the empty string are falsy.\<close>

definition part_if :: "string option \<Rightarrow> (string \<Rightarrow> string) \<Rightarrow> string option" where
  "part_if field render =
     (case field of None \<Rightarrow> None | Some v \<Rightarrow> if v = [] then None else Some (render v))"

definition show_bool :: "bool \<Rightarrow> string" where
  "show_bool b = (if b then ''true'' else ''false'')"

definition keep_truthy :: "string option list \<Rightarrow> string list" where
  "keep_truthy parts = concat (map (\<lambda>part. case part of None \<Rightarrow> [] | Some t \<Rightarrow> [t]) parts)"

definition ClaudeClient_formatElement :: "dom_element \<Rightarrow> nat \<Rightarrow> string" where
  \<open>ClaudeClient_formatElement el idx =
     join '' | '' (keep_truthy
       [Some (''['' @ string_of_nat idx @ '']''),
        Some (''Tag: '' @ el_tag el),
        part_if (el_type el) (\<lambda>v. ''Type: '' @ v),
        part_if (Some (el_selector el)) (\<lambda>v. ''Selector: '' @ v),
        part_if (el_id el) (\<lambda>v. ''ID: '' @ v),
        part_if (el_className el) (\<lambda>v. ''Class: '' @ v),
        part_if (el_text el) (\<lambda>v. ''Text: "'' @ v @ ''"''),
        part_if (el_placeholder el) (\<lambda>v. ''Placeholder: "'' @ v @ ''"''),
        part_if (el_name el) (\<lambda>v. ''Name: '' @ v),
        part_if (el_value el) (\<lambda>v. ''Value: "'' @ v @ ''"''),
        (case el_checked el of None \<Rightarrow> None | Some b \<Rightarrow> Some (''Checked: '' @ show_bool b)),
        (case el_disabled el of Some True \<Rightarrow> Some (''Disabled: '' @ show_bool True) | _ \<Rightarrow> None)])\<close>

definition ClaudeClient_formatElements :: "dom_element list \<Rightarrow> string" where
  "ClaudeClient_formatElements elements =
     join ''\<newline>'' (map (\<lambda>(el, idx). ClaudeClient_formatElement el idx)
                          (zip elements [0 ..< length elements]))"

definition ClaudeClient_buildUserPrompt :: "string \<Rightarrow> string \<Rightarrow> string \<Rightarrow> string \<Rightarrow> string" where
  "ClaudeClient_buildUserPrompt url ttl elementsText userCommand =
     ''Page URL: '' @ url @ ''\<newline>'' @
     ''Page Title: '' @ ttl @ ''\<newline>'' @
     ''\<newline>'' @
     ''Interactive Elements:\<newline>'' @
     elementsText @ ''\<newline>'' @
     ''\<newline>'' @
     ''User Command: '' @ userCommand @ ''\<newline>'' @
     ''\<newline>'' @
     ''Please analyze the page and provide actions to complete this task.''"

definition OpenAIClient_formatElement :: "dom_element \<Rightarrow> nat \<Rightarrow> string" where
  \<open>OpenAIClient_formatElement el idx =
     join '' | '' (keep_truthy
       [Some (''['' @ string_of_nat idx @ '']''),
        Some (''Tag: '' @ el_tag el),
        part_if (el_type el) (\<lambda>v. ''Type: '' @ v),
        part_if (Some (el_selector el)) (\<lambda>v. ''Selector: '' @ v),
        part_if (el_id el) (\<lambda>v. ''ID: '' @ v),
        part_if (el_className el) (\<lambda>v. ''Class: '' @ v),
        part_if (el_text el) (\<lambda>v. ''Text: "'' @ v @ ''"''),
        part_if (el_placeholder el) (\<lambda>v. ''Placeholder: "'' @ v @ ''"''),
        part_if (el_name el) (\<lambda>v. ''Name: '' @ v),
        part_if (el_value el) (\<lambda>v. ''Value: "'' @ v @ ''"''),
        (case el_checked el of None \<Rightarrow> None | Some b \<Rightarrow> Some (''Checked: '' @ show_bool b)),
        (case el_disabled el of Some True \<Rightarrow> Some (''Disabled: '' @ show_bool True) | _ \<Rightarrow> None)])\<close>

definition OpenAIClient_formatElements :: "dom_element list \<Rightarrow> string" where
  "OpenAIClient_formatElements elements =
     join ''\<newline>'' (map (\<lambda>(el, idx). OpenAIClient_formatElement el idx)
                          (zip elements [0 ..< length elements]))"

definition OpenAIClient_buildUserPrompt :: "string \<Rightarrow> string \<Rightarrow> string \<Rightarrow> string \<Rightarrow> string" where
  "OpenAIClient_buildUserPrompt url ttl elementsText userCommand =
     ''Page URL: '' @ url @ ''\<newline>'' @
     ''Page Title: '' @ ttl @ ''\<newline>'' @
     ''\<newline>'' @
     ''Interactive Elements:\<newline>'' @
     elementsText @ ''\<newline>'' @
     ''\<newline>'' @
     ''User Command: '' @ userCommand @ ''\<newline>'' @
     ''\<newline>'' @
     ''Please analyze the page and provide actions to complete this task.''"

text \<open>The text both clients put in front of the model, from a snapshot and a command, as
  \<open>analyzePageAndGetActions\<close> composes it.\<close>

datatype provider = Claude | OpenAI

definition request_text :: "provider \<Rightarrow> page_context \<Rightarrow> string \<Rightarrow> string" where
  "request_text pr context userCommand =
     (case pr of
        Claude \<Rightarrow>
          ClaudeClient_buildUserPrompt (pc_url context) (pc_title context)
            (ClaudeClient_formatElements (pc_elements context)) userCommand
      | OpenAI \<Rightarrow>
          OpenAIClient_buildUserPrompt (pc_url context) (pc_title context)
            (OpenAIClient_formatElements (pc_elements context)) userCommand)"

section \<open>Decoding the model's reply (ai-client.ts)\<close>

subsection \<open>\<open>JSON.parse\<close>\<close>

text \<open>
  The decoder of the platform, for the JSON grammar of ECMA-404. A decoded string is the
  list of its code units, since a \<open>\u\<close> escape can denote any of the 65536; a number
  keeps the text of its literal; an object keeps its members in the order of the text
  (a later member of the same name is the one a lookup finds).
\<close>

type_synonym units = "nat list"

datatype json =
    JNull
  | JBool bool
  | JNumber string
  | JString units
  | JArray "json list"
  | JObject "(units \<times> json) list"

definition js :: "string \<Rightarrow> units" where
  "js s = map of_char s"

datatype token =
    LBrack | RBrack | LBrace | RBrace | Comma | Colon
  | TString units | TNumber string | TTrue | TFalse | TNull

text \<open>The scanner reads one character at a time; its mode says what it is inside of.\<close>

datatype mode =
    Top
  | InString units
  | Escape units
  | Unicode units "nat list"
  | InNumber string
  | Literal string token

definition is_digit :: "char \<Rightarrow> bool" where
  "is_digit c = (48 \<le> (of_char c :: nat) \<and> (of_char c :: nat) \<le> 57)"

definition hex_value :: "char \<Rightarrow> nat option" where
  "hex_value c =
     (let n = (of_char c :: nat)
      in if 48 \<le> n \<and> n \<le> 57 then Some (n - 48)
         else if 65 \<le> n \<and> n \<le> 70 then Some (n - 55)
         else if 97 \<le> n \<and> n \<le> 102 then Some (n - 87)
         else None)"

definition number_char :: "char \<Rightarrow> bool" where
  "number_char c = (is_digit c \<or> c \<in> set ''+-.eE'')"

definition valid_exponent :: "string \<Rightarrow> bool" where
  "valid_exponent s =
     (case s of
        [] \<Rightarrow> True
      | e # r \<Rightarrow>
          (e = CHR ''e'' \<or> e = CHR ''E'') \<and>
          (let ds = (case r of [] \<Rightarrow> [] | g # t \<Rightarrow> if g = CHR ''+'' \<or> g = CHR ''-'' then t else r)
           in ds \<noteq> [] \<and> list_all is_digit ds))"

definition valid_fraction :: "string \<Rightarrow> bool" where
  "valid_fraction s =
     (case s of
        [] \<Rightarrow> True
      | d # r \<Rightarrow>
          if d = CHR ''.''
          then takeWhile is_digit r \<noteq> [] \<and> valid_exponent (dropWhile is_digit r)
          else valid_exponent s)"

definition valid_number :: "string \<Rightarrow> bool" where
  "valid_number s =
     (let u = (case s of [] \<Rightarrow> [] | g # t \<Rightarrow> if g = CHR ''-'' then t else s);
          ip = takeWhile is_digit u
      in ip \<noteq> [] \<and> (hd ip = CHR ''0'' \<longrightarrow> length ip = 1) \<and>
         valid_fraction (dropWhile is_digit u))"

definition scan_top :: "char \<Rightarrow> (token list \<times> mode) option" where
  \<open>scan_top c =
     (if (of_char c :: nat) \<in> {9, 10, 13, 32} then Some ([], Top)
      else if c = CHR ''['' then Some ([LBrack], Top)
      else if c = CHR '']'' then Some ([RBrack], Top)
      else if c = CHR ''{'' then Some ([LBrace], Top)
      else if c = CHR ''}'' then Some ([RBrace], Top)
      else if c = CHR '','' then Some ([Comma], Top)
      else if c = CHR '':'' then Some ([Colon], Top)
      else if c = CHR ''"'' then Some ([], InString [])
      else if c = CHR ''t'' then Some ([], Literal ''rue'' TTrue)
      else if c = CHR ''f'' then Some ([], Literal ''alse'' TFalse)
      else if c = CHR ''n'' then Some ([], Literal ''ull'' TNull)
      else if c = CHR ''-'' \<or> is_digit c then Some ([], InNumber [c])
      else None)\<close>

definition scan_escape :: "char \<Rightarrow> nat option" where
  \<open>scan_escape c =
     (if c = CHR ''"'' \<or> c = CHR 0x5C \<or> c = CHR ''/'' then Some (of_char c)
      else if c = CHR ''b'' then Some 8
      else if c = CHR ''f'' then Some 12
      else if c = CHR ''n'' then Some 10
      else if c = CHR ''r'' then Some 13
      else if c = CHR ''t'' then Some 9
      else None)\<close>

fun scan_char :: "mode \<Rightarrow> char \<Rightarrow> (token list \<times> mode) option" where
  "scan_char Top c = scan_top c"
| \<open>scan_char (InString acc) c =
     (if c = CHR ''"'' then Some ([TString acc], Top)
      else if c = CHR 0x5C then Some ([], Escape acc)
      else if (of_char c :: nat) < 32 then None
      else Some ([], InString (acc @ [of_char c])))\<close>
| "scan_char (Escape acc) c =
     (if c = CHR ''u'' then Some ([], Unicode acc [])
      else (case scan_escape c of
              None \<Rightarrow> None
            | Some u \<Rightarrow> Some ([], InString (acc @ [u]))))"
| "scan_char (Unicode acc hs) c =
     (case hex_value c of
        None \<Rightarrow> None
      | Some h \<Rightarrow>
          if length hs = 3
          then Some ([], InString (acc @ [foldl (\<lambda>v d. 16 * v + d) 0 (hs @ [h])]))
          else Some ([], Unicode acc (hs @ [h])))"
| "scan_char (InNumber acc) c =
     (if number_char c then Some ([], InNumber (acc @ [c]))
      else if valid_number acc
      then (case scan_top c of
              None \<Rightarrow> None
            | Some (ts, m) \<Rightarrow> Some (TNumber acc # ts, m))
      else None)"
| "scan_char (Literal rest tok) c =
     (case rest of
        [] \<Rightarrow> None
      | r # rs \<Rightarrow>
          if c \<noteq> r then None
          else if rs = [] then Some ([tok], Top)
          else Some ([], Literal rs tok))"

fun scan_end :: "mode \<Rightarrow> token list option" where
  "scan_end Top = Some []"
| "scan_end (InNumber acc) = (if valid_number acc then Some [TNumber acc] else None)"
| "scan_end _ = None"

fun tokens :: "mode \<Rightarrow> string \<Rightarrow> token list option" where
  "tokens m [] = scan_end m"
| "tokens m (c # cs) =
     (case scan_char m c of
        None \<Rightarrow> None
      | Some (ts, m') \<Rightarrow>
          (case tokens m' cs of None \<Rightarrow> None | Some later \<Rightarrow> Some (ts @ later)))"

text \<open>The parser keeps the open arrays and objects on a stack, innermost first, and
  knows what may come next.\<close>

datatype frame =
    InArray "json list"
  | InObject "(units \<times> json) list"
  | InMember "(units \<times> json) list" units

datatype expect =
    WantValue | WantValueOrEnd | WantKey | WantKeyOrEnd | WantColon | WantSeparator
  | Finished json

fun put :: "json \<Rightarrow> frame list \<Rightarrow> (frame list \<times> expect) option" where
  "put v [] = Some ([], Finished v)"
| "put v (InArray xs # st) = Some (InArray (xs @ [v]) # st, WantSeparator)"
| "put v (InMember ms k # st) = Some (InObject (ms @ [(k, v)]) # st, WantSeparator)"
| "put v (InObject ms # st) = None"

fun scalar :: "token \<Rightarrow> json option" where
  "scalar (TString u) = Some (JString u)"
| "scalar (TNumber n) = Some (JNumber n)"
| "scalar TTrue = Some (JBool True)"
| "scalar TFalse = Some (JBool False)"
| "scalar TNull = Some JNull"
| "scalar _ = None"

definition parse_value :: "frame list \<Rightarrow> token \<Rightarrow> (frame list \<times> expect) option" where
  "parse_value st t =
     (if t = LBrack then Some (InArray [] # st, WantValueOrEnd)
      else if t = LBrace then Some (InObject [] # st, WantKeyOrEnd)
      else (case scalar t of None \<Rightarrow> None | Some v \<Rightarrow> put v st))"

definition close_array :: "frame list \<Rightarrow> (frame list \<times> expect) option" where
  "close_array st = (case st of InArray xs # st' \<Rightarrow> put (JArray xs) st' | _ \<Rightarrow> None)"

definition close_object :: "frame list \<Rightarrow> (frame list \<times> expect) option" where
  "close_object st = (case st of InObject ms # st' \<Rightarrow> put (JObject ms) st' | _ \<Rightarrow> None)"

definition parse_key :: "frame list \<Rightarrow> token \<Rightarrow> (frame list \<times> expect) option" where
  "parse_key st t =
     (case (t, st) of
        (TString k, InObject ms # st') \<Rightarrow> Some (InMember ms k # st', WantColon)
      | _ \<Rightarrow> None)"

fun parse_token :: "frame list \<times> expect \<Rightarrow> token \<Rightarrow> (frame list \<times> expect) option" where
  "parse_token (st, WantValue) t = parse_value st t"
| "parse_token (st, WantValueOrEnd) t = (if t = RBrack then close_array st else parse_value st t)"
| "parse_token (st, WantKey) t = parse_key st t"
| "parse_token (st, WantKeyOrEnd) t = (if t = RBrace then close_object st else parse_key st t)"
| "parse_token (st, WantColon) t = (if t = Colon then Some (st, WantValue) else None)"
| "parse_token (st, WantSeparator) t =
     (if t = RBrack then close_array st
      else if t = RBrace then close_object st
      else if t = Comma then
        (case st of
           InArray xs # _ \<Rightarrow> Some (st, WantValue)
         | InObject ms # _ \<Rightarrow> Some (st, WantKey)
         | _ \<Rightarrow> None)
      else None)"
| "parse_token (st, Finished v) t = None"

fun parse_tokens :: "frame list \<times> expect \<Rightarrow> token list \<Rightarrow> json option" where
  "parse_tokens (st, e) [] = (case e of Finished v \<Rightarrow> Some v | _ \<Rightarrow> None)"
| "parse_tokens (st, e) (t # ts) =
     (case parse_token (st, e) t of None \<Rightarrow> None | Some next \<Rightarrow> parse_tokens next ts)"

definition JSON_parse :: "string \<Rightarrow> json option" where
  "JSON_parse s =
     (case tokens Top s of None \<Rightarrow> None | Some ts \<Rightarrow> parse_tokens ([], WantValue) ts)"

subsection \<open>\<open>extractActions\<close>\<close>

text \<open>\<open>text.match(/\[[\s\S]*\]/)\<close>: the match starts at the first opening bracket that
  has a closing bracket after it, which is the first opening bracket if any has, and,
  being greedy, ends at the last closing bracket of the text.\<close>

definition bracket_span :: "string \<Rightarrow> string option" where
  "bracket_span s =
     (case dropWhile (\<lambda>c. c \<noteq> CHR ''['') s of
        [] \<Rightarrow> None
      | b # rest \<Rightarrow>
          if CHR '']'' \<in> set rest
          then Some (b # rev (dropWhile (\<lambda>c. c \<noteq> CHR '']'') (rev rest)))
          else None)"

datatype planning_error =
    NoJsonArray string
  | JsonSyntaxError
  | UnexpectedResponseType string
  | NoResponse string

definition ClaudeClient_extractActions :: "string \<Rightarrow> planning_error + json" where
  "ClaudeClient_extractActions text =
     (let trimmed = trim text
      in case bracket_span trimmed of
           None \<Rightarrow> Inl (NoJsonArray ''Could not find JSON array in response'')
         | Some jsonMatch \<Rightarrow>
             (case JSON_parse jsonMatch of None \<Rightarrow> Inl JsonSyntaxError | Some v \<Rightarrow> Inr v))"

definition OpenAIClient_extractActions :: "string \<Rightarrow> planning_error + json" where
  "OpenAIClient_extractActions text =
     (let trimmed = trim text
      in case bracket_span trimmed of
           None \<Rightarrow> Inl (NoJsonArray ''Could not find JSON array in response'')
         | Some jsonMatch \<Rightarrow>
             (case JSON_parse jsonMatch of None \<Rightarrow> Inl JsonSyntaxError | Some v \<Rightarrow> Inr v))"

definition extractActions :: "provider \<Rightarrow> string \<Rightarrow> planning_error + json" where
  "extractActions pr text =
     (case pr of
        Claude \<Rightarrow> ClaudeClient_extractActions text
      | OpenAI \<Rightarrow> OpenAIClient_extractActions text)"

subsection \<open>From the answer of the network call to the actions\<close>

text \<open>
  What \<open>analyzePageAndGetActions\<close> does with the answer of its one request. The first
  content block of Claude's message is a text block or a block of another type;
  \<open>ClaudeClient\<close> throws on the latter. The content of OpenAI's first choice is a string
  or missing; \<open>OpenAIClient\<close> throws when it is falsy, that is missing or empty. The
  \<open>catch\<close> of either client logs the error and throws it again.
\<close>

datatype content_block = TextBlock string | OtherBlock string

definition ClaudeClient_replyActions :: "content_block \<Rightarrow> planning_error + json" where
  "ClaudeClient_replyActions content =
     (case content of
        OtherBlock t \<Rightarrow> Inl (UnexpectedResponseType ''Unexpected response type from Claude'')
      | TextBlock text \<Rightarrow> ClaudeClient_extractActions text)"

definition OpenAIClient_replyActions :: "string option \<Rightarrow> planning_error + json" where
  "OpenAIClient_replyActions content =
     (case content of
        None \<Rightarrow> Inl (NoResponse ''No response from OpenAI'')
      | Some text \<Rightarrow>
          if text = [] then Inl (NoResponse ''No response from OpenAI'')
          else OpenAIClient_extractActions text)"

text \<open>\<open>plan\<close> on a reply that is a text, for either backend.\<close>

definition plan_reply :: "provider \<Rightarrow> string \<Rightarrow> planning_error + json" where
  "plan_reply pr text =
     (case pr of
        Claude \<Rightarrow> ClaudeClient_replyActions (TextBlock text)
      | OpenAI \<Rightarrow> OpenAIClient_replyActions (Some text))"

subsection \<open>The Action shape of the specification\<close>

text \<open>
  The shape the specification gives an action list, to compare what \<open>extractActions\<close>
  returns with: an array of objects whose \<open>type\<close> is one of the strings \<open>click\<close>,
  \<open>fill\<close> and \<open>wait\<close>; \<open>selector\<close> is a string and is there for \<open>click\<close> and
  \<open>fill\<close>; \<open>value\<close> is a string and is there for \<open>fill\<close>; \<open>description\<close> is a
  string when it is there.
\<close>

definition member :: "(units \<times> json) list \<Rightarrow> string \<Rightarrow> json option" where
  "member ms name = map_of (rev ms) (js name)"

definition is_string :: "json option \<Rightarrow> bool" where
  "is_string v = (case v of Some (JString _) \<Rightarrow> True | _ \<Rightarrow> False)"

definition string_if_present :: "json option \<Rightarrow> bool" where
  "string_if_present v = (case v of None \<Rightarrow> True | Some (JString _) \<Rightarrow> True | _ \<Rightarrow> False)"

definition spec_action_shape :: "json \<Rightarrow> bool" where
  "spec_action_shape v =
     (case v of
        JObject ms \<Rightarrow>
          string_if_present (member ms ''selector'') \<and>
          string_if_present (member ms ''value'') \<and>
          string_if_present (member ms ''description'') \<and>
          (case member ms ''type'' of
             Some (JString t) \<Rightarrow>
               if t = js ''wait'' then True
               else if t = js ''click'' then is_string (member ms ''selector'')
               else if t = js ''fill''
               then is_string (member ms ''selector'') \<and> is_string (member ms ''value'')
               else False
           | _ \<Rightarrow> False)
      | _ \<Rightarrow> False)"

definition spec_action_list :: "json \<Rightarrow> bool" where
  "spec_action_list v = (case v of JArray items \<Rightarrow> list_all spec_action_shape items | _ \<Rightarrow> False)"

section \<open>The orchestrator (sidepanel.ts)\<close>

text \<open>
  The side panel talks to the rest of the extension by messages. What it sent is logged
  in the panel's state; what comes back is the world's answer: a reply with
  \<open>success\<close> set or not, or a rejected promise. The planner's network call, the clock
  and the storage are the world's too.
\<close>

datatype role = User | Assistant | System | ErrorMessage

record chat_message =
  cm_role :: role
  cm_content :: string
  cm_timestamp :: nat

datatype request = GET_PAGE_CONTEXT | CAPTURE_SCREENSHOT | EXECUTE_ACTIONS "action list"

datatype 'a response = Rejected string | Failure "string option" | Success 'a

record world =
  pageContextResponse :: "page_context response"
  screenshotResponse :: "string option response"
  analyzePageAndGetActions :: "page_context \<Rightarrow> string \<Rightarrow> string + action list"
  executeResponse :: "action list \<Rightarrow> action_result list response"
  dateNow :: "nat \<Rightarrow> nat"
  storageError :: "string option"

record panel =
  commandInput :: string
  sendBtnDisabled :: bool
  statusText :: string
  statusHidden :: bool
  chatMessages :: "(role \<times> string) list"
  chatHistory :: "chat_message list"
  aiClient :: "provider option"
  currentProvider :: provider
  sentMessages :: "request list"
  clockReads :: nat
  storedHistory :: "chat_message list"

definition showStatus :: "string \<Rightarrow> panel \<Rightarrow> panel" where
  "showStatus message s = s\<lparr>statusText := message, statusHidden := False\<rparr>"

definition hideStatus :: "panel \<Rightarrow> panel" where
  "hideStatus s = s\<lparr>statusHidden := True\<rparr>"

definition addMessage :: "role \<Rightarrow> string \<Rightarrow> panel \<Rightarrow> panel" where
  "addMessage r content s = s\<lparr>chatMessages := chatMessages s @ [(r, content)]\<rparr>"

definition addErrorMessage :: "string \<Rightarrow> panel \<Rightarrow> panel" where
  "addErrorMessage content s = addMessage ErrorMessage content s"

definition pushHistory :: "world \<Rightarrow> role \<Rightarrow> string \<Rightarrow> panel \<Rightarrow> panel" where
  "pushHistory w r content s =
     s\<lparr>chatHistory := chatHistory s @
            [\<lparr>cm_role = r, cm_content = content, cm_timestamp = dateNow w (clockReads s)\<rparr>],
       clockReads := Suc (clockReads s)\<rparr>"

text \<open>The three helpers share one shape: send, then either the payload of a successful
  reply or the rendering of what was thrown. \<open>new Error(m)\<close> renders as
  \<open>Error: m\<close>.\<close>

definition reply_or_throw :: "string \<Rightarrow> 'a response \<Rightarrow> string + 'a" where
  "reply_or_throw fallback r =
     (case r of
        Rejected err \<Rightarrow> Inl err
      | Failure e \<Rightarrow>
          Inl (''Error: '' @ (case e of None \<Rightarrow> fallback
                              | Some m \<Rightarrow> if m = [] then fallback else m))
      | Success x \<Rightarrow> Inr x)"

definition getPageContext :: "world \<Rightarrow> panel \<Rightarrow> page_context option \<times> panel" where
  "getPageContext w s =
     (let s1 = s\<lparr>sentMessages := sentMessages s @ [GET_PAGE_CONTEXT]\<rparr>
      in case reply_or_throw ''Failed to get page context'' (pageContextResponse w) of
           Inl err \<Rightarrow> (None, addErrorMessage (''Failed to access page: '' @ err) s1)
         | Inr context \<Rightarrow> (Some context, s1))"

definition screenshot_of :: "world \<Rightarrow> string option" where
  "screenshot_of w =
     (case reply_or_throw ''Failed to capture screenshot'' (screenshotResponse w) of
        Inl err \<Rightarrow> None
      | Inr screenshot \<Rightarrow> screenshot)"

definition captureScreenshot :: "world \<Rightarrow> panel \<Rightarrow> string option \<times> panel" where
  "captureScreenshot w s =
     (screenshot_of w, s\<lparr>sentMessages := sentMessages s @ [CAPTURE_SCREENSHOT]\<rparr>)"

text \<open>\<open>if (screenshot) context.screenshot = screenshot\<close>: \<open>null\<close> and the empty
  string are falsy.\<close>

definition attach_screenshot :: "string option \<Rightarrow> page_context \<Rightarrow> page_context" where
  "attach_screenshot screenshot context =
     (case screenshot of
        None \<Rightarrow> context
      | Some b \<Rightarrow> if b = [] then context else context\<lparr>pc_screenshot := Some b\<rparr>)"

definition sidepanel_executeActions ::
  "world \<Rightarrow> action list \<Rightarrow> panel \<Rightarrow> action_result list \<times> panel" where
  "sidepanel_executeActions w actions s =
     (let s1 = s\<lparr>sentMessages := sentMessages s @ [EXECUTE_ACTIONS actions]\<rparr>
      in case reply_or_throw ''Failed to execute actions'' (executeResponse w actions) of
           Inl err \<Rightarrow> ([], addErrorMessage (''Failed to execute actions: '' @ err) s1)
         | Inr results \<Rightarrow> (results, s1))"

definition saveChatHistory :: "world \<Rightarrow> panel \<Rightarrow> string + panel" where
  "saveChatHistory w s =
     (case storageError w of
        Some err \<Rightarrow> Inl err
      | None \<Rightarrow>
          Inr (s\<lparr>storedHistory := drop (length (chatHistory s) - 50) (chatHistory s)\<rparr>))"

text \<open>\<open>a.description || a.type\<close>.\<close>

definition label :: "action \<Rightarrow> string" where
  "label a = (case description a of None \<Rightarrow> atype a | Some d \<Rightarrow> if d = [] then atype a else d)"

definition failure_item :: "action_result \<Rightarrow> string" where
  \<open>failure_item r =
     ''<li class="action-item error">'' @ label (action r) @ '': '' @
     (case error r of None \<Rightarrow> ''undefined'' | Some e \<Rightarrow> e) @ ''</li>''\<close>

definition result_message :: "action_result list \<Rightarrow> string" where
  \<open>result_message results =
     (let successCount = length (filter success results);
          failureCount = length results - successCount;
          head = ''Completed '' @ string_of_nat successCount @ '' of '' @
                 string_of_nat (length results) @ '' actions.''
      in if failureCount > 0
         then head @ ''<br><br>Failed actions:<ul class="action-list">'' @
              concat (map failure_item (filter (\<lambda>r. \<not> success r) results)) @ ''</ul>''
         else head @ '' All actions completed successfully!'')\<close>

definition no_actions_text :: string where
  "no_actions_text = ''I could not determine any actions to take for this command.''"

text \<open>The body of the \<open>try\<close> block from the planner's answer on. \<open>Inl\<close> is an
  exception on its way to the \<open>catch\<close>, with the state it leaves.\<close>

definition run_plan :: "world \<Rightarrow> action list \<Rightarrow> panel \<Rightarrow> (string \<times> panel) + panel" where
  "run_plan w actions s =
     (if length actions = 0 then
        Inr (hideStatus
              ((pushHistory w Assistant no_actions_text
                 (addMessage Assistant no_actions_text s))\<lparr>sendBtnDisabled := False\<rparr>))
      else
        (let actionsHtml =
               join ''<br>''
                 (map (\<lambda>(a, i). string_of_nat (i + 1) @ ''. '' @ label a)
                      (zip actions [0 ..< length actions]));
             s1 = addMessage Assistant (''I will perform these actions:<br>'' @ actionsHtml) s;
             s2 = showStatus ''Executing actions...'' s1
         in case sidepanel_executeActions w actions s2 of
              (results, s3) \<Rightarrow>
                (let resultMessage = result_message results;
                     s4 = pushHistory w Assistant resultMessage
                            (addMessage Assistant resultMessage s3)
                 in case saveChatHistory w s4 of
                      Inl err \<Rightarrow> Inl (err, s4)
                    | Inr s5 \<Rightarrow> Inr s5)))"

definition try_body :: "world \<Rightarrow> string \<Rightarrow> panel \<Rightarrow> (string \<times> panel) + panel" where
  "try_body w command s =
     (case getPageContext w (showStatus ''Analyzing page...'' s) of
        (None, s1) \<Rightarrow> Inr (hideStatus (s1\<lparr>sendBtnDisabled := False\<rparr>))
      | (Some context, s1) \<Rightarrow>
          (case captureScreenshot w (showStatus ''Capturing screenshot...'' s1) of
             (screenshot, s2) \<Rightarrow>
               (let context' = attach_screenshot screenshot context;
                    providerName = (if currentProvider s2 = Claude then ''Claude'' else ''OpenAI'');
                    s3 = showStatus (''Asking '' @ providerName @ ''...'') s2
                in case analyzePageAndGetActions w context' command of
                     Inl err \<Rightarrow> Inl (err, s3)
                   | Inr actions \<Rightarrow> run_plan w actions s3)))"

definition handleSendCommand :: "world \<Rightarrow> panel \<Rightarrow> panel" where
  "handleSendCommand w s =
     (let command = trim (commandInput s)
      in if command = [] \<or> aiClient s = None then s
         else
           (let s1 = s\<lparr>commandInput := [], sendBtnDisabled := True\<rparr>;
                s2 = pushHistory w User command (addMessage User command s1);
                s3 = (case try_body w command s2 of
                        Inl (err, s') \<Rightarrow> addErrorMessage (''Error: '' @ err) s'
                      | Inr s' \<Rightarrow> s')
            in hideStatus (s3\<lparr>sendBtnDisabled := False\<rparr>)))"

text \<open>The requests to run actions among the messages sent.\<close>

fun is_execute :: "request \<Rightarrow> bool" where
  "is_execute (EXECUTE_ACTIONS _) = True"
| "is_execute _ = False"

section \<open>Pages and browsers to run the scripts on\<close>

text \<open>A checkbox with identifier \<open>terms\<close>, a text input \<open>email\<close>, and a page that
  holds them; a page where nothing matches; a page whose selector engine refuses every
  selector.\<close>

definition plain_element :: element where
  "plain_element =
     \<lparr>node = 0, iface = HTMLOther, tagName = ''DIV'', elemId = [], className = Some [],
      nameAttr = None, placeholderAttr = None, textContent = Some [],
      parentChildren = None, display = ''block'', visibility = ''visible'', opacity = ''1'',
      inputType = [], nameProp = [], placeholderProp = [], valueProp = [],
      checkedProp = False, disabledProp = False\<rparr>"

definition terms_checkbox :: element where
  "terms_checkbox =
     plain_element\<lparr>node := 1, iface := HTMLInput, tagName := ''INPUT'', elemId := ''terms'',
       className := Some ''box wide'', nameAttr := Some ''accept'',
       placeholderAttr := Some ''tick'', inputType := ''checkbox'', nameProp := ''accept''\<rparr>"

definition email_input :: element where
  "email_input =
     plain_element\<lparr>node := 2, iface := HTMLInput, tagName := ''INPUT'', elemId := ''email'',
       inputType := ''text''\<rparr>"

definition hidden_button :: element where
  "hidden_button =
     plain_element\<lparr>node := 3, iface := HTMLButton, tagName := ''BUTTON'', elemId := ''ghost'',
       display := ''none''\<rparr>"

definition form_page :: page where
  "form_page =
     \<lparr>href = ''https://example.org/form'', title = ''Form'',
      querySelectorAll = (\<lambda>s.
        if s = ''#terms'' then Inr [terms_checkbox]
        else if s = ''#email'' then Inr [email_input]
        else if s = join '','' interactiveSelectors
        then Inr [terms_checkbox, hidden_button, email_input]
        else Inr [])\<rparr>"

definition refusing_page :: page where
  "refusing_page =
     \<lparr>href = ''about:blank'', title = [],
      querySelectorAll = (\<lambda>s. Inl ''SyntaxError: not a valid selector'')\<rparr>"

definition empty_page :: page where
  "empty_page = \<lparr>href = ''about:blank'', title = [], querySelectorAll = (\<lambda>s. Inr [])\<rparr>"

text \<open>A browser on which nothing the script does changes the page, and one on which a
  click removes the element \<open>#email\<close> from the page.\<close>

definition still_browser :: browser where
  "still_browser =
     \<lparr>click = (\<lambda>p el. Done p), setValue = (\<lambda>p el v. Done p),
      dispatchEvent = (\<lambda>p el ev. Done p), elapse = (\<lambda>p ms. p)\<rparr>"

definition without_email :: "page \<Rightarrow> page" where
  "without_email p =
     p\<lparr>querySelectorAll := (\<lambda>s. if s = ''#email'' then Inr [] else querySelectorAll p s)\<rparr>"

definition removing_browser :: browser where
  "removing_browser = still_browser\<lparr>click := (\<lambda>p el. Done (without_email p))\<rparr>"

definition act :: "string \<Rightarrow> string \<Rightarrow> action" where
  "act t s = \<lparr>atype = t, selector = s, avalue = None, description = None\<rparr>"

text \<open>A world in which the page answers with an empty snapshot and the planner finds
  nothing to do, and a side panel with a command typed in.\<close>

definition snapshot0 :: page_context where
  "snapshot0 = \<lparr>pc_url = ''https://example.org/form'', pc_title = ''Form'',
                 pc_elements = [], pc_screenshot = None\<rparr>"

definition quiet_world :: world where
  "quiet_world =
     \<lparr>pageContextResponse = Success snapshot0,
      screenshotResponse = Success (Some ''iVBORw0KGgo=''),
      analyzePageAndGetActions = (\<lambda>context command. Inr []),
      executeResponse = (\<lambda>actions. Success []),
      dateNow = (\<lambda>n. 1700000000000 + n),
      storageError = None\<rparr>"

definition ready_panel :: panel where
  "ready_panel =
     \<lparr>commandInput = '' accept the terms '', sendBtnDisabled = False, statusText = [],
      statusHidden = True, chatMessages = [], chatHistory = [], aiClient = Some OpenAI,
      currentProvider = OpenAI, sentMessages = [], clockReads = 0, storedHistory = []\<rparr>"

section \<open>The executor: facts about the loop\<close>

lemma finish_action: "action (fst (finish a out)) = a"
  by (cases out) (simp_all add: finish_def succeeded_def failed_def)

lemma executeAction_action: "action (fst (executeAction br p a)) = a"
  by (simp add: executeAction_def finish_action succeeded_def failed_def
           split: sum.splits option.splits)

lemma executeActions_length: "length (fst (executeActions br p as)) \<le> length as"
proof (induction as arbitrary: p)
  case Nil
  show ?case by simp
next
  case (Cons a as)
  obtain r p1 where step: "executeAction br p a = (r, p1)"
    by (cases "executeAction br p a")
  obtain rs p2 where rest: "executeActions br (elapse br p1 500) as = (rs, p2)"
    by (cases "executeActions br (elapse br p1 500) as")
  from Cons.IH [of "elapse br p1 500"] rest have "length rs \<le> length as"
    by simp
  with step rest show ?case by simp
qed

lemma executeActions_actions:
  "map action (fst (executeActions br p as)) = take (length (fst (executeActions br p as))) as"
proof (induction as arbitrary: p)
  case Nil
  show ?case by simp
next
  case (Cons a as)
  obtain r p1 where step: "executeAction br p a = (r, p1)"
    by (cases "executeAction br p a")
  have ra: "action r = a"
    using executeAction_action [of br p a] step by simp
  show ?case
  proof (cases "success r")
    case False
    with step ra show ?thesis by simp
  next
    case True
    obtain rs p2 where rest: "executeActions br (elapse br p1 500) as = (rs, p2)"
      by (cases "executeActions br (elapse br p1 500) as")
    have "map action rs = take (length rs) as"
      using Cons.IH [of "elapse br p1 500"] rest by simp
    with step True rest ra show ?thesis by simp
  qed
qed

lemma executeActions_failure_last:
  "i < length (fst (executeActions br p as)) \<Longrightarrow>
   \<not> success (fst (executeActions br p as) ! i) \<Longrightarrow>
   Suc i = length (fst (executeActions br p as))"
proof (induction as arbitrary: p i)
  case Nil
  then show ?case by simp
next
  case (Cons a as)
  obtain r p1 where step: "executeAction br p a = (r, p1)"
    by (cases "executeAction br p a")
  show ?case
  proof (cases "success r")
    case False
    with step Cons.prems show ?thesis by simp
  next
    case True
    obtain rs p2 where rest: "executeActions br (elapse br p1 500) as = (rs, p2)"
      by (cases "executeActions br (elapse br p1 500) as")
    from step True rest have whole: "fst (executeActions br p (a # as)) = r # rs"
      by simp
    from Cons.prems whole True obtain j where j: "i = Suc j"
      by (cases i) auto
    with Cons.prems whole have "j < length rs" "\<not> success (rs ! j)"
      by auto
    with Cons.IH [of j "elapse br p1 500"] rest have "Suc j = length rs"
      by simp
    with whole j show ?thesis by simp
  qed
qed

lemma executeActions_short:
  "length (fst (executeActions br p as)) < length as \<Longrightarrow>
   fst (executeActions br p as) \<noteq> [] \<and> \<not> success (last (fst (executeActions br p as)))"
proof (induction as arbitrary: p)
  case Nil
  then show ?case by simp
next
  case (Cons a as)
  obtain r p1 where step: "executeAction br p a = (r, p1)"
    by (cases "executeAction br p a")
  show ?case
  proof (cases "success r")
    case False
    with step show ?thesis by simp
  next
    case True
    obtain rs p2 where rest: "executeActions br (elapse br p1 500) as = (rs, p2)"
      by (cases "executeActions br (elapse br p1 500) as")
    from step True rest have whole: "fst (executeActions br p (a # as)) = r # rs"
      by simp
    with Cons.prems have "length rs < length as" by simp
    with Cons.IH [of "elapse br p1 500"] rest have "rs \<noteq> [] \<and> \<not> success (last rs)"
      by simp
    with whole show ?thesis by simp
  qed
qed

lemma executeActions_append:
  "executeActions br p0 pre = (rs, p) \<Longrightarrow> list_all success rs \<Longrightarrow>
   executeActions br p0 (pre @ more_actions) =
     (rs @ fst (executeActions br p more_actions), snd (executeActions br p more_actions))"
proof (induction pre arbitrary: p0 rs)
  case Nil
  then show ?case by simp
next
  case (Cons a pre)
  obtain r p1 where step: "executeAction br p0 a = (r, p1)"
    by (cases "executeAction br p0 a")
  show ?case
  proof (cases "success r")
    case False
    with step Cons.prems show ?thesis by auto
  next
    case True
    obtain rs' p2 where rest: "executeActions br (elapse br p1 500) pre = (rs', p2)"
      by (cases "executeActions br (elapse br p1 500) pre")
    with step True Cons.prems have eq: "rs = r # rs'" "p2 = p"
      by auto
    with Cons.prems have ok: "list_all success rs'" by simp
    from rest eq have "executeActions br (elapse br p1 500) pre = (rs', p)" by simp
    from Cons.IH [OF this ok] eq step True show ?thesis
      by simp
  qed
qed

section \<open>The executor: the claims\<close>

lemma terms_not_nonhtml: "iface terms_checkbox = HTMLInput"
  by (simp add: terms_checkbox_def plain_element_def)

lemma run_missing_then_click:
  "executeActions still_browser form_page [act ''click'' ''#missing'', act ''click'' ''#terms'']
     = ([failed (act ''click'' ''#missing'') ''Element not found: #missing''], form_page)"
  by (simp add: executeAction_def querySelector_def form_page_def act_def failed_def
        interactiveSelectors_def)

text \<open>
  Claim C1. For every list of actions, on every page and browser, \<open>executeActions\<close>
  returns at most as many results as there are actions; it returns fewer exactly when some
  result that is not at the last position of the input is a failure; and a failure is
  always the last result, so nothing after the first failing action is in the list.
\<close>

theorem execute_results_length:
  "length (fst (executeActions br p as)) \<le> length as \<and>
   (length (fst (executeActions br p as)) < length as \<longleftrightarrow>
      (\<exists>i. Suc i < length as \<and> i < length (fst (executeActions br p as)) \<and>
           \<not> success (fst (executeActions br p as) ! i))) \<and>
   (\<forall>i < length (fst (executeActions br p as)).
      \<not> success (fst (executeActions br p as) ! i) \<longrightarrow>
      Suc i = length (fst (executeActions br p as)))"
proof -
  let ?rs = "fst (executeActions br p as)"
  have le: "length ?rs \<le> length as"
    by (rule executeActions_length)
  have last_only: "\<forall>i < length ?rs. \<not> success (?rs ! i) \<longrightarrow> Suc i = length ?rs"
    using executeActions_failure_last by blast
  have "length ?rs < length as \<longleftrightarrow>
        (\<exists>i. Suc i < length as \<and> i < length ?rs \<and> \<not> success (?rs ! i))"
  proof
    assume short: "length ?rs < length as"
    from executeActions_short [OF short]
    have ne: "?rs \<noteq> []" and bad: "\<not> success (last ?rs)" by simp_all
    let ?i = "length ?rs - 1"
    from ne have "?i < length ?rs" by simp
    moreover from ne bad have "\<not> success (?rs ! ?i)" by (simp add: last_conv_nth)
    moreover from ne short have "Suc ?i < length as" by simp
    ultimately show "\<exists>i. Suc i < length as \<and> i < length ?rs \<and> \<not> success (?rs ! i)"
      by blast
  next
    assume "\<exists>i. Suc i < length as \<and> i < length ?rs \<and> \<not> success (?rs ! i)"
    then obtain i where i: "Suc i < length as" "i < length ?rs" "\<not> success (?rs ! i)"
      by blast
    from executeActions_failure_last [OF i(2) i(3)] i(1) show "length ?rs < length as"
      by simp
  qed
  with le last_only show ?thesis by blast
qed

theorem execute_results_length_witness:
  "length (fst (executeActions still_browser form_page
                  [act ''click'' ''#missing'', act ''click'' ''#terms''])) = 1 \<and>
   \<not> success (fst (executeActions still_browser form_page
                  [act ''click'' ''#missing'', act ''click'' ''#terms'']) ! 0) \<and>
   length (fst (executeActions still_browser form_page
                  [act ''click'' ''#missing'', act ''click'' ''#terms'']))
     < length [act ''click'' ''#missing'', act ''click'' ''#terms'']"
  using execute_results_length [of still_browser form_page
          "[act ''click'' ''#missing'', act ''click'' ''#terms'']"]
  by (simp only: run_missing_then_click) (simp add: failed_def)

lemma run_click_terms:
  "executeActions removing_browser form_page [act ''click'' ''#terms'']
     = ([succeeded (act ''click'' ''#terms'')], without_email form_page)"
  by (simp add: executeAction_def querySelector_def form_page_def act_def finish_def
        removing_browser_def still_browser_def terms_checkbox_def plain_element_def)

lemma query_email_removed: "querySelector (without_email form_page) ''#email'' = Inr None"
  by (simp add: querySelector_def without_email_def)

lemma query_terms_kept:
  "querySelector (without_email form_page) ''#terms'' = Inr (Some terms_checkbox)"
  by (simp add: querySelector_def without_email_def form_page_def)

lemma run_four:
  "executeActions still_browser form_page
     [act ''wait'' ''#missing'', act ''click'' ''#terms'', act ''click'' ''#missing'', act ''wait'' []]
   = ([succeeded (act ''wait'' ''#missing''), succeeded (act ''click'' ''#terms''),
       failed (act ''click'' ''#missing'') ''Element not found: #missing''], form_page)"
  by (simp add: executeAction_def querySelector_def form_page_def act_def finish_def
        still_browser_def terms_checkbox_def plain_element_def succeeded_def failed_def
        interactiveSelectors_def)

text \<open>
  Claim C2. When the selector of a \<open>click\<close> or \<open>fill\<close> action resolves to no element
  of the page, \<open>executeAction\<close> returns the failure whose error is
  \<open>Element not found: \<close> followed by the selector and leaves the page as it is; and
  wherever the action stands in a batch whose earlier actions succeeded, the results of
  \<open>executeActions\<close> end with that failure: whatever follows the action in the batch is
  not tried and the page stays as the failing action found it.
\<close>

theorem missing_element_stops_batch:
  assumes "atype a = ''click'' \<or> atype a = ''fill''"
    and "querySelector p (selector a) = Inr None"
    and "executeActions br p0 pre = (rs, p)"
    and "list_all success rs"
  shows "executeAction br p a = (failed a (''Element not found: '' @ selector a), p) \<and>
         executeActions br p0 (pre @ a # rest) =
           (rs @ [failed a (''Element not found: '' @ selector a)], p)"
proof -
  from assms(1) have nw: "atype a \<noteq> ''wait''" by auto
  with assms(2)
  have one: "executeAction br p a = (failed a (''Element not found: '' @ selector a), p)"
    by (simp add: executeAction_def)
  then have "executeActions br p (a # rest) =
               ([failed a (''Element not found: '' @ selector a)], p)"
    by (simp add: failed_def)
  with executeActions_append [OF assms(3) assms(4), of "a # rest"] one show ?thesis
    by simp
qed

theorem missing_element_stops_batch_witness:
  "executeActions removing_browser form_page
     ([act ''click'' ''#terms''] @ act ''fill'' ''#email'' # [act ''click'' ''#terms'']) =
     ([succeeded (act ''click'' ''#terms'')] @
      [failed (act ''fill'' ''#email'') (''Element not found: '' @ ''#email'')],
      without_email form_page)"
proof -
  have h1: "atype (act ''fill'' ''#email'') = ''click'' \<or> atype (act ''fill'' ''#email'') = ''fill''"
    by (simp add: act_def)
  have h2: "querySelector (without_email form_page) (selector (act ''fill'' ''#email'')) = Inr None"
    by (simp add: act_def query_email_removed)
  have h4: "list_all success [succeeded (act ''click'' ''#terms'')]"
    by (simp add: succeeded_def)
  from missing_element_stops_batch [OF h1 h2 run_click_terms h4, of "[act ''click'' ''#terms'']"]
  show ?thesis
    by (simp add: act_def)
qed

lemma query_missing_removed: "querySelector (without_email form_page) ''#missing'' = Inr None"
  by (simp add: querySelector_def without_email_def form_page_def interactiveSelectors_def)

text \<open>
  Claim C7, as the code has it. An action whose type is none of \<open>click\<close>, \<open>fill\<close> and
  \<open>wait\<close> always fails without changing the page, and the batch ends with that failure
  wherever the action stands. The selector is resolved before the type is looked at, so
  the error depends on what the selector resolves to: \<open>Unknown action type: \<close> followed
  by the type when it resolves to an \<open>HTMLElement\<close>; \<open>Element not found: \<close> followed
  by the selector when it resolves to no element; \<open>Element is not an HTMLElement: \<close>
  followed by the selector when it resolves to an element of another kind; and the text of
  the exception when resolving it throws.
\<close>

theorem unknown_type_fails:
  assumes "atype a \<notin> {''click'', ''fill'', ''wait''}"
    and "executeActions br p0 pre = (rs, p)"
    and "list_all success rs"
  shows "\<not> success (fst (executeAction br p a)) \<and>
         snd (executeAction br p a) = p \<and>
         executeActions br p0 (pre @ a # rest) = (rs @ [fst (executeAction br p a)], p) \<and>
         (\<forall>el. querySelector p (selector a) = Inr (Some el) \<and> iface el \<noteq> NonHTML \<longrightarrow>
               fst (executeAction br p a) = failed a (''Unknown action type: '' @ atype a)) \<and>
         (querySelector p (selector a) = Inr None \<longrightarrow>
               fst (executeAction br p a) = failed a (''Element not found: '' @ selector a)) \<and>
         (\<forall>el. querySelector p (selector a) = Inr (Some el) \<and> iface el = NonHTML \<longrightarrow>
               fst (executeAction br p a)
                 = failed a (''Element is not an HTMLElement: '' @ selector a)) \<and>
         (\<forall>err. querySelector p (selector a) = Inl err \<longrightarrow>
               fst (executeAction br p a) = failed a err)"
proof -
  from assms(1) have ty: "atype a \<noteq> ''wait''" "atype a \<noteq> ''click''" "atype a \<noteq> ''fill''"
    by auto
  have bad: "\<not> success (fst (executeAction br p a))"
    using ty by (simp add: executeAction_def failed_def split: sum.splits option.splits)
  have same: "snd (executeAction br p a) = p"
    using ty by (simp add: executeAction_def split: sum.splits option.splits)
  have named: "\<forall>el. querySelector p (selector a) = Inr (Some el) \<and> iface el \<noteq> NonHTML \<longrightarrow>
               fst (executeAction br p a) = failed a (''Unknown action type: '' @ atype a)"
    using ty by (simp add: executeAction_def)
  have missing: "querySelector p (selector a) = Inr None \<longrightarrow>
               fst (executeAction br p a) = failed a (''Element not found: '' @ selector a)"
    using ty by (simp add: executeAction_def)
  have foreign: "\<forall>el. querySelector p (selector a) = Inr (Some el) \<and> iface el = NonHTML \<longrightarrow>
               fst (executeAction br p a)
                 = failed a (''Element is not an HTMLElement: '' @ selector a)"
    using ty by (simp add: executeAction_def)
  have thrown: "\<forall>err. querySelector p (selector a) = Inl err \<longrightarrow>
               fst (executeAction br p a) = failed a err"
    using ty by (simp add: executeAction_def)
  from bad same have "executeActions br p (a # rest) = ([fst (executeAction br p a)], p)"
    by (cases "executeAction br p a") simp
  with executeActions_append [OF assms(2) assms(3), of "a # rest"]
  have "executeActions br p0 (pre @ a # rest) = (rs @ [fst (executeAction br p a)], p)"
    by simp
  with bad same named missing foreign thrown show ?thesis by blast
qed

theorem unknown_type_fails_witness:
  "executeActions removing_browser form_page
     ([act ''click'' ''#terms''] @ act ''hover'' ''#terms'' # [act ''wait'' []]) =
     ([succeeded (act ''click'' ''#terms'')] @
      [failed (act ''hover'' ''#terms'') (''Unknown action type: '' @ ''hover'')],
      without_email form_page) \<and>
   executeActions removing_browser form_page
     ([act ''click'' ''#terms''] @ act ''hover'' ''#missing'' # [act ''wait'' []]) =
     ([succeeded (act ''click'' ''#terms'')] @
      [failed (act ''hover'' ''#missing'') (''Element not found: '' @ ''#missing'')],
      without_email form_page)"
proof -
  have h1: "atype (act ''hover'' ''#terms'') \<notin> {''click'', ''fill'', ''wait''}"
    by (simp add: act_def)
  have h1': "atype (act ''hover'' ''#missing'') \<notin> {''click'', ''fill'', ''wait''}"
    by (simp add: act_def)
  have h3: "list_all success [succeeded (act ''click'' ''#terms'')]"
    by (simp add: succeeded_def)
  have q: "querySelector (without_email form_page) (selector (act ''hover'' ''#terms''))
             = Inr (Some terms_checkbox) \<and> iface terms_checkbox \<noteq> NonHTML"
    by (simp add: act_def query_terms_kept terms_not_nonhtml)
  have q': "querySelector (without_email form_page) (selector (act ''hover'' ''#missing''))
             = Inr None"
    by (simp add: act_def query_missing_removed)
  have ty: "atype (act ''hover'' ''#terms'') = ''hover''"
    by (simp add: act_def)
  have sel: "selector (act ''hover'' ''#missing'') = ''#missing''"
    by (simp add: act_def)
  from unknown_type_fails [OF h1 run_click_terms h3, of "[act ''wait'' []]"]
  have run: "executeActions removing_browser form_page
               ([act ''click'' ''#terms''] @ act ''hover'' ''#terms'' # [act ''wait'' []]) =
             ([succeeded (act ''click'' ''#terms'')] @
              [fst (executeAction removing_browser (without_email form_page)
                      (act ''hover'' ''#terms''))],
              without_email form_page)"
    and named: "\<forall>el. querySelector (without_email form_page) (selector (act ''hover'' ''#terms''))
                       = Inr (Some el) \<and> iface el \<noteq> NonHTML \<longrightarrow>
                     fst (executeAction removing_browser (without_email form_page)
                            (act ''hover'' ''#terms''))
                       = failed (act ''hover'' ''#terms'')
                           (''Unknown action type: '' @ atype (act ''hover'' ''#terms''))"
    by blast+
  from named q
  have r1: "fst (executeAction removing_browser (without_email form_page) (act ''hover'' ''#terms''))
          = failed (act ''hover'' ''#terms'') (''Unknown action type: '' @ ''hover'')"
    unfolding ty by blast
  from unknown_type_fails [OF h1' run_click_terms h3, of "[act ''wait'' []]"]
  have run': "executeActions removing_browser form_page
               ([act ''click'' ''#terms''] @ act ''hover'' ''#missing'' # [act ''wait'' []]) =
             ([succeeded (act ''click'' ''#terms'')] @
              [fst (executeAction removing_browser (without_email form_page)
                      (act ''hover'' ''#missing''))],
              without_email form_page)"
    and missing: "querySelector (without_email form_page) (selector (act ''hover'' ''#missing''))
                       = Inr None \<longrightarrow>
                     fst (executeAction removing_browser (without_email form_page)
                            (act ''hover'' ''#missing''))
                       = failed (act ''hover'' ''#missing'')
                           (''Element not found: '' @ selector (act ''hover'' ''#missing''))"
    by blast+
  from missing q'
  have r2: "fst (executeAction removing_browser (without_email form_page) (act ''hover'' ''#missing''))
          = failed (act ''hover'' ''#missing'') (''Element not found: '' @ ''#missing'')"
    unfolding sel by blast
  from run r1 run' r2 show ?thesis
    by (simp only:)
qed

text \<open>
  Claim C7 as the specification states it fails: on a page where nothing matches
  \<open>#missing\<close>, an action of the unknown type \<open>hover\<close> with that selector fails with
  the resolution error, in which the type does not occur.
\<close>

theorem unknown_type_counterexample:
  "atype (act ''hover'' ''#missing'') \<notin> {''click'', ''fill'', ''wait''} \<and>
   fst (executeAction still_browser empty_page (act ''hover'' ''#missing''))
     = failed (act ''hover'' ''#missing'') ''Element not found: #missing'' \<and>
   \<not> sublist ''hover'' ''Element not found: #missing''"
proof -
  have "\<not> sublist ''hover'' ''Element not found: #missing''"
    by code_simp
  then show ?thesis
    by (simp add: executeAction_def querySelector_def empty_page_def act_def)
qed

text \<open>
  Claim C10. The actions of the results of \<open>executeActions\<close> are the input's first
  actions, position by position; every result that has a successor is a success; and a
  \<open>wait\<close> action succeeds after 1000 ms on every page and for every selector it may
  carry, the selector engine not being asked.
\<close>

theorem results_follow_input:
  "map action (fst (executeActions br p as)) = take (length (fst (executeActions br p as))) as \<and>
   (\<forall>i < length (fst (executeActions br p as)). action (fst (executeActions br p as) ! i) = as ! i) \<and>
   (\<forall>i. Suc i < length (fst (executeActions br p as)) \<longrightarrow>
        success (fst (executeActions br p as) ! i)) \<and>
   (atype a = ''wait'' \<longrightarrow> executeAction br p a = (succeeded a, elapse br p 1000))"
proof -
  let ?rs = "fst (executeActions br p as)"
  have m: "map action ?rs = take (length ?rs) as"
    by (rule executeActions_actions)
  have nth: "\<forall>i < length ?rs. action (?rs ! i) = as ! i"
  proof (intro allI impI)
    fix i assume i: "i < length ?rs"
    then have "action (?rs ! i) = map action ?rs ! i" by simp
    also have "\<dots> = take (length ?rs) as ! i" by (simp only: m)
    also from i have "\<dots> = as ! i" by simp
    finally show "action (?rs ! i) = as ! i" .
  qed
  have ok: "\<forall>i. Suc i < length ?rs \<longrightarrow> success (?rs ! i)"
  proof (intro allI impI)
    fix i assume i: "Suc i < length ?rs"
    show "success (?rs ! i)"
    proof (rule ccontr)
      assume "\<not> success (?rs ! i)"
      with executeActions_failure_last [of i br p as] i show False by simp
    qed
  qed
  have w: "atype a = ''wait'' \<longrightarrow> executeAction br p a = (succeeded a, elapse br p 1000)"
    by (simp add: executeAction_def)
  from m nth ok w show ?thesis by blast
qed

theorem results_follow_input_witness:
  "Suc 1 < length (fst (executeActions still_browser form_page
       [act ''wait'' ''#missing'', act ''click'' ''#terms'', act ''click'' ''#missing'',
        act ''wait'' []])) \<and>
   success (fst (executeActions still_browser form_page
       [act ''wait'' ''#missing'', act ''click'' ''#terms'', act ''click'' ''#missing'',
        act ''wait'' []]) ! 1) \<and>
   action (fst (executeActions still_browser form_page
       [act ''wait'' ''#missing'', act ''click'' ''#terms'', act ''click'' ''#missing'',
        act ''wait'' []]) ! 2) = act ''click'' ''#missing'' \<and>
   atype (act ''wait'' ''#missing'') = ''wait'' \<and>
   executeAction still_browser form_page (act ''wait'' ''#missing'')
     = (succeeded (act ''wait'' ''#missing''), elapse still_browser form_page 1000)"
proof -
  have ty: "atype (act ''wait'' ''#missing'') = ''wait''"
    by (simp add: act_def)
  from results_follow_input [of still_browser form_page
         "[act ''wait'' ''#missing'', act ''click'' ''#terms'', act ''click'' ''#missing'',
           act ''wait'' []]" "act ''wait'' ''#missing''"] ty
  show ?thesis
    by (simp only: run_four) (simp add: succeeded_def failed_def)
qed

section \<open>The observer: facts about the scan\<close>

lemma describe_selector: "el_selector (describe el sel) = sel"
  by (simp add: describe_def Let_def)

lemma scan_returns:
  "scan p els = Inr ds \<Longrightarrow>
   list_all2 (\<lambda>el d. getSelector p el = Inr (el_selector d) \<and> d = describe el (el_selector d))
     (filter retained els) ds"
proof (induction els arbitrary: ds)
  case Nil
  then show ?case by simp
next
  case (Cons el els)
  show ?case
  proof (cases "retained el")
    case False
    with Cons.prems have "scan p els = Inr ds"
      by (auto simp: retained_def split: if_splits)
    from Cons.IH [OF this] False show ?thesis by simp
  next
    case True
    with Cons.prems obtain sel ds' where
      sel: "getSelector p el = Inr sel" and rest: "scan p els = Inr ds'"
      and ds: "ds = describe el sel # ds'"
      by (auto simp: retained_def split: sum.splits)
    from Cons.IH [OF rest] True sel ds show ?thesis
      by (simp add: describe_selector)
  qed
qed

lemma scan_throws:
  "scan p els = Inl err \<Longrightarrow> \<exists>el \<in> set els. retained el \<and> getSelector p el = Inl err"
proof (induction els)
  case Nil
  then show ?case by simp
next
  case (Cons el els)
  show ?case
  proof (cases "retained el")
    case False
    with Cons.prems have "scan p els = Inl err"
      by (auto simp: retained_def split: if_splits)
    from Cons.IH [OF this] show ?thesis by auto
  next
    case True
    show ?thesis
    proof (cases "getSelector p el")
      case (Inl e)
      with True Cons.prems have "e = err"
        by (simp add: retained_def)
      with Inl True show ?thesis by simp
    next
      case (Inr sel)
      with True Cons.prems have "scan p els = Inl err"
        by (simp add: retained_def split: sum.splits)
      from Cons.IH [OF this] show ?thesis by auto
    qed
  qed
qed

lemma retained_visible:
  "retained el \<Longrightarrow>
   iface el \<noteq> NonHTML \<and> display el \<noteq> ''none'' \<and> visibility el \<noteq> ''hidden'' \<and> opacity el \<noteq> ''0''"
  by (simp add: retained_def invisible_def)

lemma interactive_query:
  \<open>join '','' interactiveSelectors =
     ''input:not([type="hidden"]),textarea,button,select,a[href],[role="button"],[onclick],[contenteditable="true"]''\<close>
  by (simp add: interactiveSelectors_def)

lemma snapshot_form_page:
  "extractPageContext form_page =
     Inr \<lparr>pc_url = ''https://example.org/form'', pc_title = ''Form'',
          pc_elements = [describe terms_checkbox ''#terms'', describe email_input ''#email''],
          pc_screenshot = None\<rparr>"
proof -
  have found: "querySelectorAll form_page (join '','' interactiveSelectors)
                 = Inr [terms_checkbox, hidden_button, email_input]"
    by (simp add: form_page_def interactive_query)
  have s1: "getSelector form_page terms_checkbox = Inr ''#terms''"
    by (simp add: getSelector_def terms_checkbox_def plain_element_def)
  have s2: "getSelector form_page email_input = Inr ''#email''"
    by (simp add: getSelector_def email_input_def plain_element_def)
  have k1: "iface terms_checkbox \<noteq> NonHTML \<and> \<not> invisible terms_checkbox"
    by (simp add: invisible_def terms_checkbox_def plain_element_def)
  have k2: "iface hidden_button \<noteq> NonHTML \<and> invisible hidden_button"
    by (simp add: invisible_def hidden_button_def plain_element_def)
  have k3: "iface email_input \<noteq> NonHTML \<and> \<not> invisible email_input"
    by (simp add: invisible_def email_input_def plain_element_def)
  have "scan form_page [terms_checkbox, hidden_button, email_input]
          = Inr [describe terms_checkbox ''#terms'', describe email_input ''#email'']"
    by (simp add: s1 s2 k1 k2 k3)
  with found show ?thesis
    by (simp add: extractPageContext_def) (simp add: form_page_def)
qed

lemma snapshot_refusing_page:
  "extractPageContext refusing_page = Inl ''SyntaxError: not a valid selector''"
  by (simp add: extractPageContext_def refusing_page_def)

section \<open>The observer: the claims\<close>

text \<open>
  Claim C5. Whenever \<open>extractPageContext\<close> returns a snapshot, the snapshot has at most
  100 elements, and they are the descriptions, in the order of discovery, of the first 100
  elements found that are \<open>HTMLElement\<close>s and not invisible: none of them has
  \<open>display\<close> \<open>none\<close>, \<open>visibility\<close> \<open>hidden\<close> or \<open>opacity\<close> \<open>0\<close>. It returns a
  snapshot unless the selector engine throws, on the query for the interactive elements or
  on a uniqueness probe of \<open>getSelector\<close> for an element that is kept.
\<close>

theorem snapshot_bounded_visible:
  "(\<forall>snap. extractPageContext p = Inr snap \<longrightarrow>
      length (pc_elements snap) \<le> 100 \<and>
      (\<exists>found kept.
         querySelectorAll p (join '','' interactiveSelectors) = Inr found \<and>
         kept = take 100 (filter (\<lambda>el. iface el \<noteq> NonHTML \<and> \<not> invisible el) found) \<and>
         subseq kept found \<and>
         (\<forall>el \<in> set kept. display el \<noteq> ''none'' \<and> visibility el \<noteq> ''hidden'' \<and>
                          opacity el \<noteq> ''0'') \<and>
         list_all2 (\<lambda>el d. getSelector p el = Inr (el_selector d) \<and>
                           d = describe el (el_selector d))
           kept (pc_elements snap))) \<and>
   (\<forall>err. extractPageContext p = Inl err \<longrightarrow>
      querySelectorAll p (join '','' interactiveSelectors) = Inl err \<or>
      (\<exists>found el. querySelectorAll p (join '','' interactiveSelectors) = Inr found \<and>
          el \<in> set found \<and> iface el \<noteq> NonHTML \<and> \<not> invisible el \<and>
          getSelector p el = Inl err))"
proof (intro conjI allI impI)
  fix snap
  assume ok: "extractPageContext p = Inr snap"
  then obtain found ds where
    found: "querySelectorAll p (join '','' interactiveSelectors) = Inr found"
    and ds: "scan p found = Inr ds"
    and snap: "pc_elements snap = take 100 ds"
    by (auto simp: extractPageContext_def split: sum.splits)
  from snap show "length (pc_elements snap) \<le> 100" by simp
  let ?kept = "take 100 (filter retained found)"
  have same: "retained = (\<lambda>el. iface el \<noteq> NonHTML \<and> \<not> invisible el)"
    by (simp add: retained_def fun_eq_iff)
  have sub: "subseq ?kept found"
    by (rule subseq_order.trans [OF sublist_imp_subseq [OF prefix_imp_sublist [OF take_is_prefix]]
          subseq_filter_left])
  have vis: "\<forall>el \<in> set ?kept. display el \<noteq> ''none'' \<and> visibility el \<noteq> ''hidden'' \<and>
                                opacity el \<noteq> ''0''"
  proof
    fix el assume "el \<in> set ?kept"
    then have "el \<in> set (filter retained found)" by (rule in_set_takeD)
    then have "retained el" by simp
    then show "display el \<noteq> ''none'' \<and> visibility el \<noteq> ''hidden'' \<and> opacity el \<noteq> ''0''"
      using retained_visible by blast
  qed
  have rel: "list_all2 (\<lambda>el d. getSelector p el = Inr (el_selector d) \<and>
                           d = describe el (el_selector d)) ?kept (pc_elements snap)"
    unfolding snap by (rule list_all2_takeI [OF scan_returns [OF ds]])
  from found sub vis rel
  show "\<exists>found kept.
         querySelectorAll p (join '','' interactiveSelectors) = Inr found \<and>
         kept = take 100 (filter (\<lambda>el. iface el \<noteq> NonHTML \<and> \<not> invisible el) found) \<and>
         subseq kept found \<and>
         (\<forall>el \<in> set kept. display el \<noteq> ''none'' \<and> visibility el \<noteq> ''hidden'' \<and>
                          opacity el \<noteq> ''0'') \<and>
         list_all2 (\<lambda>el d. getSelector p el = Inr (el_selector d) \<and>
                           d = describe el (el_selector d))
           kept (pc_elements snap)"
    unfolding same by blast
next
  fix err
  assume bad: "extractPageContext p = Inl err"
  show "querySelectorAll p (join '','' interactiveSelectors) = Inl err \<or>
      (\<exists>found el. querySelectorAll p (join '','' interactiveSelectors) = Inr found \<and>
          el \<in> set found \<and> iface el \<noteq> NonHTML \<and> \<not> invisible el \<and>
          getSelector p el = Inl err)"
  proof (cases "querySelectorAll p (join '','' interactiveSelectors)")
    case (Inl e)
    with bad show ?thesis by (simp add: extractPageContext_def)
  next
    case (Inr found)
    with bad have "scan p found = Inl err"
      by (simp add: extractPageContext_def split: sum.splits)
    from scan_throws [OF this] Inr show ?thesis
      by (auto simp: retained_def)
  qed
qed

theorem snapshot_bounded_visible_witness:
  "extractPageContext form_page =
     Inr \<lparr>pc_url = ''https://example.org/form'', pc_title = ''Form'',
          pc_elements = [describe terms_checkbox ''#terms'', describe email_input ''#email''],
          pc_screenshot = None\<rparr> \<and>
   querySelectorAll form_page (join '','' interactiveSelectors)
     = Inr [terms_checkbox, hidden_button, email_input] \<and>
   display hidden_button = ''none'' \<and>
   take 100 (filter (\<lambda>el. iface el \<noteq> NonHTML \<and> \<not> invisible el)
               [terms_checkbox, hidden_button, email_input]) = [terms_checkbox, email_input] \<and>
   extractPageContext refusing_page = Inl ''SyntaxError: not a valid selector'' \<and>
   querySelectorAll refusing_page (join '','' interactiveSelectors)
     = Inl ''SyntaxError: not a valid selector''"
proof -
  have found: "querySelectorAll form_page (join '','' interactiveSelectors)
                 = Inr [terms_checkbox, hidden_button, email_input]"
    by (simp add: form_page_def interactive_query)
  have kept: "take 100 (filter (\<lambda>el. iface el \<noteq> NonHTML \<and> \<not> invisible el)
               [terms_checkbox, hidden_button, email_input]) = [terms_checkbox, email_input]"
    by (simp add: invisible_def terms_checkbox_def hidden_button_def email_input_def
          plain_element_def)
  have hid: "display hidden_button = ''none''"
    by (simp add: hidden_button_def plain_element_def)
  have refused: "querySelectorAll refusing_page (join '','' interactiveSelectors)
     = Inl ''SyntaxError: not a valid selector''"
    by (simp add: refusing_page_def)
  from snapshot_bounded_visible [of form_page] snapshot_bounded_visible [of refusing_page]
       snapshot_form_page snapshot_refusing_page found kept hid refused
  show ?thesis
    by blast
qed

text \<open>
  Claim C6. For an element whose identifier is not empty, \<open>getSelector\<close> returns
  \<open>#\<close> followed by the identifier, whatever the page and the other attributes of the
  element are.
\<close>

theorem identifier_selector:
  "elemId el \<noteq> [] \<Longrightarrow> getSelector p el = Inr (''#'' @ elemId el)"
  by (simp add: getSelector_def)

theorem identifier_selector_witness:
  "elemId terms_checkbox \<noteq> [] \<and> nameAttr terms_checkbox = Some ''accept'' \<and>
   getSelector refusing_page terms_checkbox = Inr ''#terms''"
proof -
  have h: "elemId terms_checkbox \<noteq> []"
    by (simp add: terms_checkbox_def plain_element_def)
  from identifier_selector [OF h, of refusing_page] h show ?thesis
    by (simp add: terms_checkbox_def plain_element_def)
qed

section \<open>The planner: the request text\<close>

lemma lower_input: "toLowerCase ''INPUT'' = ''input''"
  by code_simp

lemma listing_sample:
  "ClaudeClient_formatElements [describe terms_checkbox ''#terms'', describe email_input ''#email'']
   = ''[0] | Tag: input | Type: checkbox | Selector: #terms | ID: terms | Class: box wide | Name: accept | Checked: false\<newline>[1] | Tag: input | Type: text | Selector: #email | ID: email | Checked: false''"
  by (simp add: ClaudeClient_formatElements_def ClaudeClient_formatElement_def describe_def
        terms_checkbox_def email_input_def plain_element_def lower_input or_undefined_def
        part_if_def keep_truthy_def show_bool_def string_of_nat.simps digit_char_def trim_def
        upt_rec)

text \<open>
  Claim C8. For every list of elements, \<open>ClaudeClient\<close> and \<open>OpenAIClient\<close> produce the
  same element listing; for every URL, title, listing and command they produce the same
  user prompt; so for every snapshot and command the text of their requests is the same.
\<close>

theorem backends_same_text:
  "ClaudeClient_formatElements elements = OpenAIClient_formatElements elements \<and>
   ClaudeClient_buildUserPrompt url ttl elementsText userCommand
     = OpenAIClient_buildUserPrompt url ttl elementsText userCommand \<and>
   request_text Claude context userCommand = request_text OpenAI context userCommand"
proof -
  have one: "ClaudeClient_formatElement = OpenAIClient_formatElement"
    by (simp add: fun_eq_iff ClaudeClient_formatElement_def OpenAIClient_formatElement_def)
  have listing: "ClaudeClient_formatElements = OpenAIClient_formatElements"
    by (simp add: fun_eq_iff ClaudeClient_formatElements_def OpenAIClient_formatElements_def one)
  have prompt: "ClaudeClient_buildUserPrompt = OpenAIClient_buildUserPrompt"
    by (simp add: fun_eq_iff ClaudeClient_buildUserPrompt_def OpenAIClient_buildUserPrompt_def)
  show ?thesis
    by (simp add: request_text_def listing prompt)
qed

section \<open>The planner: facts about the bracket span\<close>

lemma space_not_bracket: "is_space c \<Longrightarrow> c \<noteq> CHR ''['' \<and> c \<noteq> CHR '']''"
  by (auto simp: is_space_def)

lemma trim_split:
  "\<exists>u v. s = u @ trim s @ v \<and> (\<forall>c \<in> set u. is_space c) \<and> (\<forall>c \<in> set v. is_space c)"
proof -
  let ?d = "dropWhile is_space s"
  let ?u = "takeWhile is_space s"
  let ?v = "rev (takeWhile is_space (rev ?d))"
  have "trim s @ ?v = rev (takeWhile is_space (rev ?d) @ dropWhile is_space (rev ?d))"
    unfolding trim_def by (simp only: rev_append)
  also have "\<dots> = rev (rev ?d)"
    by (simp only: takeWhile_dropWhile_id)
  finally have d: "trim s @ ?v = ?d"
    by simp
  have "s = ?u @ ?d" by simp
  with d have "s = ?u @ trim s @ ?v" by simp
  moreover have "\<forall>c \<in> set ?u. is_space c"
    by (auto dest: set_takeWhileD)
  moreover have "\<forall>c \<in> set ?v. is_space c"
    by (auto dest: set_takeWhileD)
  ultimately show ?thesis by blast
qed

lemma bracket_span_pad:
  assumes "CHR ''['' \<notin> set u" and "CHR ''['' \<notin> set v" and "CHR '']'' \<notin> set v"
  shows "bracket_span (u @ t @ v) = bracket_span t"
proof -
  have skip: "dropWhile (\<lambda>c. c \<noteq> CHR ''['') (u @ t @ v)
                = dropWhile (\<lambda>c. c \<noteq> CHR ''['') (t @ v)"
    by (rule dropWhile_append2) (use assms(1) in auto)
  show ?thesis
  proof (cases "CHR ''['' \<in> set t")
    case False
    with assms(2) have "\<forall>c \<in> set (t @ v). c \<noteq> CHR ''[''"
      by auto
    then have e1: "dropWhile (\<lambda>c. c \<noteq> CHR ''['') (t @ v) = []"
      by (simp only: dropWhile_eq_Nil_conv)
    from False have "\<forall>c \<in> set t. c \<noteq> CHR ''[''"
      by auto
    then have e2: "dropWhile (\<lambda>c. c \<noteq> CHR ''['') t = []"
      by (simp only: dropWhile_eq_Nil_conv)
    show ?thesis
      by (simp only: bracket_span_def skip e1 e2 list.case)
  next
    case True
    then have app: "dropWhile (\<lambda>c. c \<noteq> CHR ''['') (t @ v)
                      = dropWhile (\<lambda>c. c \<noteq> CHR ''['') t @ v"
      by (intro dropWhile_append1) auto
    from True obtain b rest where br: "dropWhile (\<lambda>c. c \<noteq> CHR ''['') t = b # rest"
      by (cases "dropWhile (\<lambda>c. c \<noteq> CHR ''['') t") auto
    have mem: "CHR '']'' \<in> set (rest @ v) \<longleftrightarrow> CHR '']'' \<in> set rest"
      using assms(3) by auto
    have ending: "dropWhile (\<lambda>c. c \<noteq> CHR '']'') (rev v @ rev rest)
                  = dropWhile (\<lambda>c. c \<noteq> CHR '']'') (rev rest)"
      by (rule dropWhile_append2) (use assms(3) in auto)
    show ?thesis
      by (simp only: bracket_span_def skip app br append_Cons list.case mem rev_append ending)
  qed
qed

lemma bracket_span_trim: "bracket_span (trim s) = bracket_span s"
proof -
  from trim_split [of s] obtain u v where
    s: "s = u @ trim s @ v" and u: "\<forall>c \<in> set u. is_space c" and v: "\<forall>c \<in> set v. is_space c"
    by blast
  from u v have "CHR ''['' \<notin> set u" "CHR ''['' \<notin> set v" "CHR '']'' \<notin> set v"
    using space_not_bracket by blast+
  from bracket_span_pad [OF this, of "trim s"] s show ?thesis
    by simp
qed

lemma bracket_span_exact:
  assumes "CHR ''['' \<notin> set pre" and "CHR '']'' \<notin> set post"
  shows "bracket_span (pre @ CHR ''['' # mid @ CHR '']'' # post) = Some (CHR ''['' # mid @ '']'')"
proof -
  have "dropWhile (\<lambda>c. c \<noteq> CHR ''['') (pre @ CHR ''['' # mid @ CHR '']'' # post)
          = dropWhile (\<lambda>c. c \<noteq> CHR ''['') (CHR ''['' # mid @ CHR '']'' # post)"
    by (rule dropWhile_append2) (use assms(1) in auto)
  then have lead: "dropWhile (\<lambda>c. c \<noteq> CHR ''['') (pre @ CHR ''['' # mid @ CHR '']'' # post)
                  = CHR ''['' # mid @ CHR '']'' # post"
    by simp
  have "dropWhile (\<lambda>c. c \<noteq> CHR '']'') (rev post @ CHR '']'' # rev mid)
          = dropWhile (\<lambda>c. c \<noteq> CHR '']'') (CHR '']'' # rev mid)"
    by (rule dropWhile_append2) (use assms(2) in auto)
  then have ending: "dropWhile (\<lambda>c. c \<noteq> CHR '']'') (rev post @ CHR '']'' # rev mid)
                  = CHR '']'' # rev mid"
    by simp
  show ?thesis
    by (simp add: bracket_span_def lead ending)
qed

lemma bracket_span_some:
  "bracket_span s = Some m \<Longrightarrow> \<exists>a b c. s = a @ CHR ''['' # b @ CHR '']'' # c"
proof -
  assume m: "bracket_span s = Some m"
  let ?d = "dropWhile (\<lambda>c. c \<noteq> CHR ''['') s"
  from m obtain x rest where d: "?d = x # rest" and mem: "CHR '']'' \<in> set rest"
    by (auto simp: bracket_span_def split: list.splits if_splits)
  from d have "x = hd ?d" by simp
  moreover from d have "?d \<noteq> []" by simp
  ultimately have x: "x = CHR ''[''"
    using hd_dropWhile [of "\<lambda>c. c \<noteq> CHR ''[''" s] by simp
  from mem obtain b c where rest: "rest = b @ CHR '']'' # c"
    by (auto dest: split_list)
  have "s = takeWhile (\<lambda>c. c \<noteq> CHR ''['') s @ ?d" by simp
  with d x rest have "s = takeWhile (\<lambda>c. c \<noteq> CHR ''['') s @ CHR ''['' # b @ CHR '']'' # c"
    by simp
  then show ?thesis by blast
qed

lemma bracket_span_none:
  "bracket_span s = None \<Longrightarrow> \<not> (\<exists>a b c. s = a @ CHR ''['' # b @ CHR '']'' # c)"
proof
  assume n: "bracket_span s = None"
  assume "\<exists>a b c. s = a @ CHR ''['' # b @ CHR '']'' # c"
  then obtain a b c where s: "s = a @ CHR ''['' # b @ CHR '']'' # c" by blast
  then have "CHR ''['' \<in> set s" by simp
  then obtain ys zs where split: "s = ys @ CHR ''['' # zs" and first: "CHR ''['' \<notin> set ys"
    by (auto dest: split_list_first)
  have "dropWhile (\<lambda>c. c \<noteq> CHR ''['') (ys @ CHR ''['' # zs)
          = dropWhile (\<lambda>c. c \<noteq> CHR ''['') (CHR ''['' # zs)"
    by (rule dropWhile_append2) (use first in auto)
  then have d: "dropWhile (\<lambda>c. c \<noteq> CHR ''['') s = CHR ''['' # zs"
    unfolding split by simp
  from s split have "ys @ CHR ''['' # zs = a @ CHR ''['' # b @ CHR '']'' # c" by simp
  then have "CHR '']'' \<in> set zs"
  proof (simp add: append_eq_append_conv2, elim exE disjE conjE)
    fix us
    assume "ys = a @ us" "us @ CHR ''['' # zs = CHR ''['' # b @ CHR '']'' # c"
    with first show ?thesis
      by (cases us) auto
  next
    fix us
    assume "ys @ us = a" "CHR ''['' # zs = us @ CHR ''['' # b @ CHR '']'' # c"
    then show ?thesis
      by (cases us) auto
  qed
  with n d show False
    by (simp add: bracket_span_def)
qed

lemma extractActions_cases:
  "extractActions pr text =
     (case bracket_span text of
        None \<Rightarrow> Inl (NoJsonArray ''Could not find JSON array in response'')
      | Some m \<Rightarrow> (case JSON_parse m of None \<Rightarrow> Inl JsonSyntaxError | Some v \<Rightarrow> Inr v))"
  by (cases pr)
     (simp_all add: extractActions_def ClaudeClient_extractActions_def
        OpenAIClient_extractActions_def bracket_span_trim)

lemma shape_ok: \<open>spec_action_list (the (JSON_parse ''[{"type":"click","selector":"#go","description":"go"},{"type":"wait"},{"type":"fill","selector":"#a","value":""}]''))\<close>
  by code_simp

lemma parse_click_go:
  \<open>JSON_parse (CHR ''['' # ''{"type":"click","selector":"#go"}'' @ '']'') =
     Some (JArray [JObject [(js ''type'', JString (js ''click'')),
                            (js ''selector'', JString (js ''#go''))]])\<close>
  by code_simp

lemma span_whole: \<open>bracket_span ''Sure: [{"selector":7}]'' = Some ''[{"selector":7}]''\<close>
  by (simp add: bracket_span_def)

lemma parse_selector_7:
  \<open>JSON_parse ''[{"selector":7}]'' = Some (JArray [JObject [(js ''selector'', JNumber ''7'')]])\<close>
  by code_simp

lemma plan_reply_cases:
  "plan_reply pr text =
     (if pr = OpenAI \<and> text = [] then Inl (NoResponse ''No response from OpenAI'')
      else extractActions pr text)"
  by (cases pr)
     (simp_all add: plan_reply_def ClaudeClient_replyActions_def OpenAIClient_replyActions_def
        extractActions_def)

lemma plan_reply_empty:
  "plan_reply OpenAI [] = Inl (NoResponse ''No response from OpenAI'') \<and>
   plan_reply Claude [] = Inl (NoJsonArray ''Could not find JSON array in response'')"
  by (simp add: plan_reply_cases extractActions_cases bracket_span_def)

section \<open>The planner: the claims\<close>

text \<open>
  Claim C3, as the code has it. When the text in front of a JSON array has no opening
  bracket and the text behind it has no closing bracket, \<open>extractActions\<close> of either
  client, and so \<open>plan\<close> on that reply, returns what \<open>JSON.parse\<close> decodes from exactly
  that array. When the reply has no opening bracket followed, anywhere later, by a closing
  bracket, \<open>plan\<close> fails: \<open>extractActions\<close> throws that it could not find a JSON
  array, unless the reply is empty and \<open>OpenAIClient\<close> has thrown before.
\<close>

theorem reply_array_extracted:
  "(CHR ''['' \<notin> set pre \<and> CHR '']'' \<notin> set post \<and>
    JSON_parse (CHR ''['' # mid @ '']'') = Some v \<longrightarrow>
      extractActions pr (pre @ (CHR ''['' # mid @ '']'') @ post) = Inr v \<and>
      plan_reply pr (pre @ (CHR ''['' # mid @ '']'') @ post) = Inr v) \<and>
   (\<not> (\<exists>a b c. text = a @ CHR ''['' # b @ CHR '']'' # c) \<longrightarrow>
      extractActions pr text = Inl (NoJsonArray ''Could not find JSON array in response'') \<and>
      (\<exists>e. plan_reply pr text = Inl e))"
proof (intro conjI impI)
  assume h: "CHR ''['' \<notin> set pre \<and> CHR '']'' \<notin> set post \<and>
             JSON_parse (CHR ''['' # mid @ '']'') = Some v"
  then have "bracket_span (pre @ CHR ''['' # mid @ CHR '']'' # post) = Some (CHR ''['' # mid @ '']'')"
    by (simp add: bracket_span_exact)
  with h show ex: "extractActions pr (pre @ (CHR ''['' # mid @ '']'') @ post) = Inr v"
    by (simp add: extractActions_cases)
  then show "plan_reply pr (pre @ (CHR ''['' # mid @ '']'') @ post) = Inr v"
    by (simp add: plan_reply_cases)
next
  assume none: "\<not> (\<exists>a b c. text = a @ CHR ''['' # b @ CHR '']'' # c)"
  have "bracket_span text = None"
  proof (cases "bracket_span text")
    case None
    then show ?thesis .
  next
    case (Some m)
    from bracket_span_some [OF Some] none show ?thesis by blast
  qed
  then show ex: "extractActions pr text = Inl (NoJsonArray ''Could not find JSON array in response'')"
    by (simp add: extractActions_cases)
  then show "\<exists>e. plan_reply pr text = Inl e"
    by (simp add: plan_reply_cases)
qed

theorem reply_array_extracted_witness:
  \<open>plan_reply OpenAI
      (''Here is the plan: '' @ ''[{"type":"click","selector":"#go"}]'' @ '' Done.'') =
      Inr (JArray [JObject [(js ''type'', JString (js ''click'')),
                            (js ''selector'', JString (js ''#go''))]]) \<and>
    extractActions OpenAI
      (''Here is the plan: '' @ ''[{"type":"click","selector":"#go"}]'' @ '' Done.'') =
      Inr (JArray [JObject [(js ''type'', JString (js ''click'')),
                            (js ''selector'', JString (js ''#go''))]]) \<and>
    extractActions OpenAI ''I cannot help with that.'' =
      Inl (NoJsonArray ''Could not find JSON array in response'') \<and>
    plan_reply OpenAI ''I cannot help with that.'' =
      Inl (NoJsonArray ''Could not find JSON array in response'')\<close>
proof -
  have h1: "CHR ''['' \<notin> set ''Here is the plan: ''" by simp
  have h2: "CHR '']'' \<notin> set '' Done.''" by simp
  have h4: "\<not> (\<exists>a b c. ''I cannot help with that.'' = a @ CHR ''['' # b @ CHR '']'' # c)"
  proof
    assume "\<exists>a b c. ''I cannot help with that.'' = a @ CHR ''['' # b @ CHR '']'' # c"
    then obtain a b c where "''I cannot help with that.'' = a @ CHR ''['' # b @ CHR '']'' # c"
      by blast
    then have "CHR ''['' \<in> set ''I cannot help with that.''"
      by (simp only: set_append list.set) simp
    then show False by simp
  qed
  from reply_array_extracted [of "''Here is the plan: ''" "'' Done.''"
         \<open>''{"type":"click","selector":"#go"}''\<close>
         "JArray [JObject [(js ''type'', JString (js ''click'')),
                           (js ''selector'', JString (js ''#go''))]]"
         OpenAI "''I cannot help with that.''"]
       h1 h2 parse_click_go h4
  show ?thesis
    by (simp add: plan_reply_cases)
qed

text \<open>
  Claim C3 as the specification states it fails: the span runs from the first opening
  bracket of the reply to its last closing bracket, so a bracket in the prose in front of
  a valid array makes both clients fail to decode it.
\<close>

theorem reply_array_extracted_counterexample:
  \<open>JSON_parse ''[{"type":"click","selector":"#go"}]'' =
     Some (JArray [JObject [(js ''type'', JString (js ''click'')),
                            (js ''selector'', JString (js ''#go''))]]) \<and>
   plan_reply Claude
     (''Click the [Submit] button: '' @ ''[{"type":"click","selector":"#go"}]'' @ '''')
     = Inl JsonSyntaxError \<and>
   plan_reply OpenAI
     (''Click the [Submit] button: '' @ ''[{"type":"click","selector":"#go"}]'' @ '''')
     = Inl JsonSyntaxError \<and>
   extractActions Claude
     (''Click the [Submit] button: '' @ ''[{"type":"click","selector":"#go"}]'' @ '''')
     = Inl JsonSyntaxError \<and>
   extractActions OpenAI
     (''Click the [Submit] button: '' @ ''[{"type":"click","selector":"#go"}]'' @ '''')
     = Inl JsonSyntaxError\<close>
  by code_simp

text \<open>
  Claim C4, as the code has it. \<open>extractActions\<close> returns a value exactly when the
  bracket span of the reply is JSON text, and then it returns the decoded value as it is,
  of whatever shape; it fails exactly when there is no bracket span or the span is not
  JSON text.
\<close>

theorem reply_decoded_unchecked:
  "(extractActions pr text = Inr v \<longleftrightarrow>
      (\<exists>m. bracket_span text = Some m \<and> JSON_parse m = Some v)) \<and>
   (extractActions pr text = Inl e \<longleftrightarrow>
      (\<not> (\<exists>a b c. text = a @ CHR ''['' # b @ CHR '']'' # c) \<and>
         e = NoJsonArray ''Could not find JSON array in response'') \<or>
      (\<exists>m. bracket_span text = Some m \<and> JSON_parse m = None \<and> e = JsonSyntaxError))"
proof -
  have none_iff: "bracket_span text = None \<longleftrightarrow>
                  \<not> (\<exists>a b c. text = a @ CHR ''['' # b @ CHR '']'' # c)"
    using bracket_span_none [of "text"] bracket_span_some [of "text"]
    by (cases "bracket_span text") auto
  show ?thesis
    unfolding none_iff [symmetric]
    by (auto simp: extractActions_cases split: option.splits)
qed

theorem reply_decoded_unchecked_witness:
  \<open>extractActions Claude ''Sure: [{"selector":7}]'' =
     Inr (JArray [JObject [(js ''selector'', JNumber ''7'')]])\<close>
  using reply_decoded_unchecked [of Claude \<open>''Sure: [{"selector":7}]''\<close>
          "JArray [JObject [(js ''selector'', JNumber ''7'')]]" JsonSyntaxError]
        span_whole parse_selector_7
  by simp

text \<open>
  Claim C4 as the specification states it fails: an array of an object with the unknown
  type \<open>hover\<close> and a \<open>click\<close> without a selector is returned by both clients, though it
  has not the Action shape of the specification.
\<close>

theorem reply_decoded_unchecked_counterexample:
  \<open>extractActions Claude ''[{"type":"hover"},{"type":"click"}]'' =
     Inr (JArray [JObject [(js ''type'', JString (js ''hover''))],
                  JObject [(js ''type'', JString (js ''click''))]]) \<and>
   extractActions OpenAI ''[{"type":"hover"},{"type":"click"}]'' =
     Inr (JArray [JObject [(js ''type'', JString (js ''hover''))],
                  JObject [(js ''type'', JString (js ''click''))]]) \<and>
   \<not> spec_action_list
       (JArray [JObject [(js ''type'', JString (js ''hover''))],
                JObject [(js ''type'', JString (js ''click''))]])\<close>
  by code_simp

section \<open>The orchestrator: the claim\<close>

text \<open>
  Claim C9. When a command is sent, the page answers with a snapshot and the planner
  returns the empty list, \<open>handleSendCommand\<close> adds, after the user's message, the
  assistant's message that it could not determine any actions, sends the requests for the
  snapshot and for the screenshot and no request to execute actions, and leaves the send
  button enabled and the status bar hidden.
\<close>

theorem empty_plan_not_executed:
  assumes "trim (commandInput s) \<noteq> []"
    and "aiClient s \<noteq> None"
    and "pageContextResponse w = Success context"
    and "analyzePageAndGetActions w (attach_screenshot (screenshot_of w) context)
           (trim (commandInput s)) = Inr []"
  shows "chatMessages (handleSendCommand w s) =
           chatMessages s @
             [(User, trim (commandInput s)),
              (Assistant, ''I could not determine any actions to take for this command.'')] \<and>
         sentMessages (handleSendCommand w s) =
           sentMessages s @ [GET_PAGE_CONTEXT, CAPTURE_SCREENSHOT] \<and>
         filter is_execute (sentMessages (handleSendCommand w s)) =
           filter is_execute (sentMessages s) \<and>
         \<not> sendBtnDisabled (handleSendCommand w s) \<and>
         statusHidden (handleSendCommand w s)"
proof -
  have ctx: "\<And>t. getPageContext w t =
                 (Some context, t\<lparr>sentMessages := sentMessages t @ [GET_PAGE_CONTEXT]\<rparr>)"
    using assms(3) by (simp add: getPageContext_def reply_or_throw_def)
  have body: "\<And>t. try_body w (trim (commandInput s)) t =
      run_plan w []
        (showStatus (''Asking '' @ (if currentProvider t = Claude then ''Claude'' else ''OpenAI'')
                       @ ''...'')
           (t\<lparr>statusText := ''Capturing screenshot...'', statusHidden := False,
              sentMessages := sentMessages t @ [GET_PAGE_CONTEXT, CAPTURE_SCREENSHOT]\<rparr>))"
    using assms(4)
    by (simp add: try_body_def ctx captureScreenshot_def showStatus_def Let_def)
  show ?thesis
    using assms(1,2)
    by (simp add: handleSendCommand_def Let_def body run_plan_def no_actions_text_def
          hideStatus_def showStatus_def pushHistory_def addMessage_def)
qed

theorem empty_plan_not_executed_witness:
  "chatMessages (handleSendCommand quiet_world ready_panel) =
     [(User, ''accept the terms''),
      (Assistant, ''I could not determine any actions to take for this command.'')] \<and>
   sentMessages (handleSendCommand quiet_world ready_panel) =
     [GET_PAGE_CONTEXT, CAPTURE_SCREENSHOT]"
proof -
  have tr: "trim (commandInput ready_panel) = ''accept the terms''"
    by (simp add: ready_panel_def trim_def is_space_def)
  have h1: "trim (commandInput ready_panel) \<noteq> []"
    by (simp add: tr)
  have h2: "aiClient ready_panel \<noteq> None"
    by (simp add: ready_panel_def)
  have h3: "pageContextResponse quiet_world = Success snapshot0"
    by (simp add: quiet_world_def)
  have h4: "analyzePageAndGetActions quiet_world
              (attach_screenshot (screenshot_of quiet_world) snapshot0)
              (trim (commandInput ready_panel)) = Inr []"
    by (simp add: quiet_world_def)
  from empty_plan_not_executed [OF h1 h2 h3 h4] show ?thesis
    by (simp add: tr) (simp add: ready_panel_def)
qed

end
